theory Spec2Isabelle
  imports Main "HOL-Library.Word"
begin

unbundle bit_operations_syntax

section \<open>The UDP tunnel: tunneludp_v1.c and tunneludp_v2.c\<close>

text \<open>
  Both programs are a single \<open>main\<close> that talks to the operating system: it opens a
  tun/tap device, opens and binds a UDP socket, exchanges a magic word with the peer and
  then relays buffers between the device and the socket for ever.

  The embedding makes the operating system explicit. What a system call returns (and
  what it stores through its pointer arguments) is an input, given by a script of the
  environment; what the program does (the system calls it makes, with the arguments
  that matter, and the lines it prints) is an output, a list of events in program order.
  A call of \<open>exit\<close> ends the run with its status.
\<close>

subsection \<open>Constants of the sources\<close>

definition BUFSIZE :: nat where
  "BUFSIZE = 4096"

definition CLIENT :: int where
  "CLIENT = 0"

definition SERVER :: int where
  "SERVER = 1"

text \<open>\<open>PORT\<close> is 55566 in tunneludp_v1.c and 5588 in tunneludp_v2.c.\<close>

definition PORT_v1 :: "16 word" where
  "PORT_v1 = 55566"

definition PORT_v2 :: "16 word" where
  "PORT_v2 = 5588"

text \<open>
  \<open>char MAGIC_WORD[] = "Wazaaaaaaaaaaahhhh !"\<close>: the array holds the twenty characters
  and the terminating NUL, so \<open>sizeof(MAGIC_WORD)\<close> is 21.
\<close>

definition MAGIC_WORD :: "char list" where
  "MAGIC_WORD = ''Wazaaaaaaaaaaahhhh !'' @ [CHR 0x00]"

definition sizeof_MAGIC_WORD :: nat where
  "sizeof_MAGIC_WORD = length MAGIC_WORD"

text \<open>Constants of the system headers: \<open>errno.h\<close>, \<open>linux/if.h\<close>, \<open>linux/if_tun.h\<close>, \<open>netinet/in.h\<close>.\<close>

definition EINTR :: int where
  "EINTR = 4"

definition IFNAMSIZ :: nat where
  "IFNAMSIZ = 16"

definition IFF_TUN :: int where
  "IFF_TUN = 1"

definition IFF_TAP :: int where
  "IFF_TAP = 2"

definition IFF_NO_PI :: int where
  "IFF_NO_PI = 4096"

definition IP_HDR_LEN :: int where
  "IP_HDR_LEN = 20"

definition ETH_HDR_LEN :: int where
  "ETH_HDR_LEN = 14"

definition INADDR_ANY :: "32 word" where
  "INADDR_ANY = 0"

subsection \<open>Data\<close>

text \<open>
  \<open>struct sockaddr_in\<close>: the address and the port, in host byte order (\<open>htons\<close>,
  \<open>htonl\<close> and \<open>ntohs\<close> only change the representation). The family is \<open>AF_INET\<close>
  throughout and is left out.
\<close>

record sockaddr_in =
  sin_addr :: "32 word"
  sin_port :: "16 word"

text \<open>
  What the program does, in program order. \<open>Sys_sendto a d\<close> is a call of \<open>sendto\<close>
  with destination \<open>a\<close> and the bytes \<open>d\<close> handed to the kernel; \<open>Sys_write d\<close> is a
  call of \<open>write\<close> on the tun/tap descriptor with the bytes \<open>d\<close>; \<open>Sys_read\<close> and
  \<open>Sys_recvfrom\<close> are the calls that take data from the tun/tap descriptor and from
  the socket. \<open>Perror\<close> carries the argument of \<open>perror\<close>, \<open>Stderr\<close> and \<open>Stdout\<close> the
  format string of \<open>my_err\<close>/\<open>fprintf(stderr, ...)\<close> and of \<open>printf\<close> (the
  conversions are not expanded).
\<close>

datatype event =
    Sys_open
  | Sys_ioctl string int
  | Sys_close
  | Sys_socket
  | Sys_setsockopt
  | Sys_bind sockaddr_in
  | Sys_sendto sockaddr_in "char list"
  | Sys_recvfrom
  | Sys_select
  | Sys_read
  | Sys_write "char list"
  | Perror string
  | Stderr string
  | Stdout string

text \<open>
  How a part of the program ends: with \<open>exit(n)\<close>, blocked in a system call for which
  the script of the environment has no further answer, with a read outside an array
  (undefined in C), or normally with a value.
\<close>

datatype 'a result = Exit int | Wait | Undef | Next 'a

type_synonym 'a proc = "event list \<times> 'a result"

definition seq :: "'a proc \<Rightarrow> ('a \<Rightarrow> 'b proc) \<Rightarrow> 'b proc" where
  "seq p f =
     (case p of
        (ev, Exit n) \<Rightarrow> (ev, Exit n)
      | (ev, Wait) \<Rightarrow> (ev, Wait)
      | (ev, Undef) \<Rightarrow> (ev, Undef)
      | (ev, Next a) \<Rightarrow> (case f a of (ev', r) \<Rightarrow> (ev @ ev', r)))"

subsection \<open>Library and system calls\<close>

text \<open>
  \<open>strncmp(s1, s2, n)\<close>: compares at most \<open>n\<close> characters, as unsigned chars, and stops
  after a NUL. \<open>None\<close> is a read past the end of one of the arrays.
\<close>

fun strncmp :: "char list \<Rightarrow> char list \<Rightarrow> nat \<Rightarrow> int option" where
  "strncmp s1 s2 0 = Some 0"
| "strncmp (c1 # s1) (c2 # s2) (Suc n) =
     (if c1 \<noteq> c2 then Some (of_char c1 - of_char c2)
      else if c1 = CHR 0x00 then Some 0
      else strncmp s1 s2 n)"
| "strncmp s1 s2 (Suc n) = None"

text \<open>
  \<open>atoi\<close>, as the C library of Linux defines it: \<open>(int) strtol(nptr, NULL, 10)\<close>.
  \<open>strtol\<close> skips white space, takes an optional sign and then the decimal digits
  (0 when there is no digit), and returns \<open>LONG_MAX\<close> or \<open>LONG_MIN\<close> when the
  value does not fit a \<open>long\<close> of 64 bits; the conversion to \<open>int\<close> keeps the low
  32 bits.
\<close>

definition LONG_MAX :: int where
  "LONG_MAX = 2 ^ 63 - 1"

definition LONG_MIN :: int where
  "LONG_MIN = - (2 ^ 63)"

definition isspace :: "char \<Rightarrow> bool" where
  "isspace c = (c \<in> set [CHR '' '', CHR 0x09, CHR 0x0A, CHR 0x0B, CHR 0x0C, CHR 0x0D])"

definition isdigit :: "char \<Rightarrow> bool" where
  "isdigit c = ((48::nat) \<le> of_char c \<and> of_char c \<le> (57::nat))"

fun digits :: "int \<Rightarrow> string \<Rightarrow> int" where
  "digits acc [] = acc"
| "digits acc (c # cs) = (if isdigit c then digits (10 * acc + (of_char c - 48)) cs else acc)"

definition strtol :: "string \<Rightarrow> int" where
  "strtol str =
     (case dropWhile isspace str of
        [] \<Rightarrow> 0
      | c # cs \<Rightarrow>
          if c = CHR ''-'' then max LONG_MIN (- digits 0 cs)
          else if c = CHR ''+'' then min LONG_MAX (digits 0 cs)
          else min LONG_MAX (digits 0 (c # cs)))"

definition atoi :: "string \<Rightarrow> int" where
  "atoi str = sint (word_of_int (strtol str) :: 32 word)"

text \<open>The kernel stores \<open>d\<close> at the start of the array \<open>buf\<close>; the rest of the array keeps its bytes.\<close>

definition store :: "char list \<Rightarrow> char list \<Rightarrow> char list" where
  "store buf d = take (length buf) d @ drop (length d) buf"

text \<open>
  \<open>read(tap_fd, buffer, n)\<close>: the environment either fails the call (\<open>-1\<close>, the buffer
  untouched) or hands over a frame, of which at most \<open>n\<close> bytes are stored; the return
  value is the number of bytes stored.
\<close>

datatype read_res = Read_failed | Read_frame "char list"

definition sys_read :: "read_res \<Rightarrow> char list \<Rightarrow> nat \<Rightarrow> int \<times> char list" where
  "sys_read r buf n =
     (case r of
        Read_failed \<Rightarrow> (- 1, buf)
      | Read_frame d \<Rightarrow> (int (length (take n d)), store buf (take n d)))"

text \<open>
  \<open>recvfrom(sock_fd, buffer, n, 0, &addr, &len)\<close>: the environment either fails the
  call (\<open>-1\<close>, nothing stored) or delivers a datagram with its source address; at most
  \<open>n\<close> bytes of the payload are stored, the source address is stored in \<open>addr\<close>. The
  length argument stays \<open>sizeof(struct sockaddr_in)\<close> on a UDP/IPv4 socket and is left out.
\<close>

datatype recv_res = Recv_failed | Datagram sockaddr_in "char list"

definition sys_recvfrom ::
  "recv_res \<Rightarrow> char list \<Rightarrow> nat \<Rightarrow> sockaddr_in \<Rightarrow> int \<times> char list \<times> sockaddr_in" where
  "sys_recvfrom r buf n addr =
     (case r of
        Recv_failed \<Rightarrow> (- 1, buf, addr)
      | Datagram src d \<Rightarrow> (int (length (take n d)), store buf (take n d), src))"

definition perror_if :: "bool \<Rightarrow> string \<Rightarrow> event list" where
  "perror_if b msg = (if b then [Perror msg] else [])"

subsection \<open>The environment of a run\<close>

text \<open>
  The answers of the environment to the system calls of one turn of \<open>while(1)\<close>:
  the return value of \<open>select\<close> and \<open>errno\<close> after it, the two bits of \<open>rd_set\<close>
  after it, and the results of \<open>read\<close>, \<open>sendto\<close>, \<open>recvfrom\<close> and \<open>write\<close>, used
  when the turn makes the call.
\<close>

record turn =
  select_ret :: int
  select_errno :: int
  tap_isset :: bool
  sock_isset :: bool
  read_result :: read_res
  sendto_ret :: int
  recv_result :: recv_res
  write_ret :: int

text \<open>
  The whole run: the options as \<open>getopt\<close> returns them one by one (the option
  character and \<open>optarg\<close>; an option that is not in \<open>"i:sc:p:uahd"\<close>, or one that lacks
  its argument, comes as \<open>?\<close>), the number of arguments left after them, the return
  values of the calls of the setup, \<open>inet_aton\<close> (\<open>None\<close>: not an address, nothing is
  stored), the datagrams that \<open>recvfrom\<close> delivers during the handshake, the bytes
  that the stack holds where \<open>buffer\<close> and the address structures are allocated, and
  the turns of the relay loop.
\<close>

record env =
  getopt_results :: "(char \<times> string) list"
  extra_args :: nat
  open_ret :: int
  ioctl_ret :: int
  ifr_name :: string
  socket_ret :: int
  setsockopt_ret :: int
  bind_ret :: int
  inet_aton :: "string \<Rightarrow> 32 word option"
  hs_sendto_ret :: int
  hs_recv :: "recv_res list"
  stack_buffer :: "char list"
  stack_addr :: sockaddr_in
  relay_script :: "turn list"

subsection \<open>The locals of main\<close>

text \<open>
  The locals that both programs declare. tunneludp_v1.c adds the global \<open>debug\<close>;
  tunneludp_v2.c adds \<open>port\<close>, \<open>remote_addr\<close>, \<open>read_addr\<close> and the two packet
  counters. (\<open>serverlen\<close>, \<open>clientlen\<close> and \<open>readlen\<close> stay
  \<open>sizeof(struct sockaddr_in)\<close>; \<open>nread\<close>, \<open>nwrite\<close>, \<open>plength\<close>, \<open>net_fd\<close>,
  \<open>tap2net\<close> and \<open>net2tap\<close> are never used; the descriptors \<open>tap_fd\<close> and
  \<open>sock_fd\<close> are fixed once opened.)
\<close>

record locals =
  flags :: int
  if_name :: string
  header_len :: int
  buffer :: "char list"
  server_addr :: sockaddr_in
  client_addr :: sockaddr_in
  server_ip :: string
  cliserv :: int

record state_v1 = locals +
  debug :: bool

record state_v2 = locals +
  port :: "16 word"
  remote_addr :: sockaddr_in
  read_addr :: sockaddr_in
  tap_count :: int
  sock_count :: int

subsection \<open>tun_alloc, the same in both files\<close>

text \<open>Returns the events, the return value and the contents of \<open>dev\<close> afterwards.\<close>

definition tun_alloc :: "env \<Rightarrow> string \<Rightarrow> int \<Rightarrow> event list \<times> int \<times> string" where
  "tun_alloc e dev fl =
     (if open_ret e < 0 then ([Sys_open, Perror ''Opening /dev/net/tun''], open_ret e, dev)
      else if ioctl_ret e < 0
        then ([Sys_open, Sys_ioctl (take IFNAMSIZ dev) fl, Perror ''ioctl(TUNSETIFF)'', Sys_close],
              ioctl_ret e, dev)
      else ([Sys_open, Sys_ioctl (take IFNAMSIZ dev) fl], open_ret e, ifr_name e))"

text \<open>\<open>socket(PF_INET, SOCK_DGRAM, 0)\<close> and its check, the same in both files.\<close>

definition open_socket :: "env \<Rightarrow> 'a \<Rightarrow> 'a proc" where
  "open_socket e s =
     (if socket_ret e < 0 then ([Sys_socket, Perror ''socket()''], Exit 1)
      else ([Sys_socket], Next s))"

text \<open>\<open>inet_aton(server_ip, &addr.sin_addr)\<close>: the return value is not looked at.\<close>

definition inet_aton_into :: "env \<Rightarrow> string \<Rightarrow> sockaddr_in \<Rightarrow> sockaddr_in" where
  "inet_aton_into e ip addr =
     (case inet_aton e ip of None \<Rightarrow> addr | Some a \<Rightarrow> addr\<lparr>sin_addr := a\<rparr>)"

section \<open>tunneludp_v1.c\<close>

subsection \<open>Options\<close>

definition usage_v1 :: "'a proc" where
  "usage_v1 =
     ([Stderr ''Usage:\<newline>'',
       Stderr ''%s -i <ifacename> [-s|-c <serverIP>] [-p <port>] [-u|-a] [-d]\<newline>'',
       Stderr ''%s -h\<newline>'',
       Stderr ''\<newline>'',
       Stderr ''-i <ifacename>: Name of interface to use (mandatory)\<newline>'',
       Stderr ''-s|-c <serverIP>: run in server mode (-s), or specify server address (-c <serverIP>) (mandatory)\<newline>'',
       Stderr ''-p <port>: port to listen on (if run in server mode) or to connect to (in client mode), default 55555\<newline>'',
       Stderr ''-u|-a: use TUN (-u, default) or TAP (-a)\<newline>'',
       Stderr ''-d: outputs debug information while running\<newline>'',
       Stderr ''-h: prints this help text\<newline>''],
      Exit 1)"

definition my_err_usage_v1 :: "string \<Rightarrow> 'a proc" where
  "my_err_usage_v1 msg = (case usage_v1 of (ev, r) \<Rightarrow> (Stderr msg # ev, r))"

definition do_debug :: "state_v1 \<Rightarrow> string \<Rightarrow> event list" where
  "do_debug s msg = (if debug s then [Stderr msg] else [])"

text \<open>
  The locals as declared, lines 199 to 213: what has no initialiser holds what the
  stack holds. \<open>debug\<close> is a global, zero at the start.
\<close>

definition init_v1 :: "env \<Rightarrow> state_v1" where
  "init_v1 e =
     \<lparr>flags = IFF_TUN, if_name = [], header_len = IP_HDR_LEN, buffer = stack_buffer e,
      server_addr = stack_addr e, client_addr = stack_addr e, server_ip = [],
      cliserv = - 1, debug = False\<rparr>"

text \<open>
  The loop \<open>while((option = getopt(...)) > 0)\<close> with its \<open>switch\<close>, lines 218 to 250.
  The case \<open>'p'\<close> is empty: its assignment is commented out.
\<close>

fun getopt_loop_v1 :: "state_v1 \<Rightarrow> (char \<times> string) list \<Rightarrow> state_v1 proc" where
  "getopt_loop_v1 s [] = ([], Next s)"
| "getopt_loop_v1 s ((option, optarg) # rest) =
     (if option = CHR ''d'' then getopt_loop_v1 (s\<lparr>debug := True\<rparr>) rest
      else if option = CHR ''h'' then usage_v1
      else if option = CHR ''i''
        then getopt_loop_v1 (s\<lparr>if_name := take (IFNAMSIZ - 1) optarg\<rparr>) rest
      else if option = CHR ''s'' then getopt_loop_v1 (s\<lparr>cliserv := SERVER\<rparr>) rest
      else if option = CHR ''c''
        then getopt_loop_v1 (s\<lparr>cliserv := CLIENT, server_ip := take 15 optarg\<rparr>) rest
      else if option = CHR ''p'' then getopt_loop_v1 s rest
      else if option = CHR ''u'' then getopt_loop_v1 (s\<lparr>flags := IFF_TUN\<rparr>) rest
      else if option = CHR ''a''
        then getopt_loop_v1 (s\<lparr>flags := IFF_TAP, header_len := ETH_HDR_LEN\<rparr>) rest
      else my_err_usage_v1 ''Unknown option %c\<newline>'')"

text \<open>The checks after the loop, lines 252 to 269.\<close>

definition check_args_v1 :: "env \<Rightarrow> state_v1 \<Rightarrow> state_v1 proc" where
  "check_args_v1 e s =
     (if extra_args e > 0 then my_err_usage_v1 ''Too many options!\<newline>''
      else if if_name s = [] then my_err_usage_v1 ''Must specify interface name!\<newline>''
      else if cliserv s < 0 then my_err_usage_v1 ''Must specify client or server mode!\<newline>''
      else if cliserv s = CLIENT \<and> server_ip s = []
        then my_err_usage_v1 ''Must specify server address!\<newline>''
      else ([], Next s))"

subsection \<open>Setup and handshake\<close>

text \<open>Lines 271 to 277.\<close>

definition open_tun_v1 :: "env \<Rightarrow> state_v1 \<Rightarrow> state_v1 proc" where
  "open_tun_v1 e s =
     (case tun_alloc e (if_name s) (flags s OR IFF_NO_PI) of
        (ev, tap_fd, dev) \<Rightarrow>
          if tap_fd < 0
          then (ev @ [Stderr ''Error connecting to tun/tap interface %s!\<newline>''], Exit 1)
          else (ev @ do_debug s ''Successfully connected to interface %s\<newline>'',
                Next (s\<lparr>if_name := dev\<rparr>)))"

text \<open>
  The client, lines 286 to 311. A failed \<open>bind\<close> is reported and nothing else; the
  third argument of \<open>strncmp\<close> is \<open>sizeof(MAGIC_WORD) != 0\<close>, and a reply that
  compares unequal is reported and nothing else.
\<close>

definition client_v1 :: "env \<Rightarrow> state_v1 \<Rightarrow> state_v1 proc" where
  "client_v1 e s =
     (let s1 = s\<lparr>client_addr := \<lparr>sin_addr = INADDR_ANY, sin_port = PORT_v1\<rparr>\<rparr>;
          ev1 = [Sys_bind (client_addr s1)] @ perror_if (bind_ret e < 0) ''bind'';
          s2 = s1\<lparr>server_addr :=
                    inet_aton_into e (server_ip s1) ((server_addr s1)\<lparr>sin_port := PORT_v1\<rparr>)\<rparr>;
          ev2 = [Sys_sendto (server_addr s2) (take sizeof_MAGIC_WORD MAGIC_WORD)]
                @ perror_if (hs_sendto_ret e < 0) ''sendto''
      in case hs_recv e of
           [] \<Rightarrow> (ev1 @ ev2 @ [Sys_recvfrom], Wait)
         | r # rs \<Rightarrow>
             (case sys_recvfrom r (buffer s2) BUFSIZE (server_addr s2) of
                (n, buf, addr) \<Rightarrow>
                  (case strncmp MAGIC_WORD buf (if sizeof_MAGIC_WORD \<noteq> 0 then 1 else 0) of
                     None \<Rightarrow> (ev1 @ ev2 @ [Sys_recvfrom] @ perror_if (n < 0) ''recvfrom'', Undef)
                   | Some c \<Rightarrow>
                       (ev1 @ ev2 @ [Sys_recvfrom] @ perror_if (n < 0) ''recvfrom''
                        @ perror_if (c \<noteq> 0) ''Bad magic word for peer\<newline>''
                        @ [Stdout ''Connection with %s:%i established\<newline>'']
                        @ do_debug s ''CLIENT: Connected to server %s\<newline>'',
                        Next (s2\<lparr>buffer := buf, server_addr := addr\<rparr>)))))"

text \<open>
  The server waits for the magic word, lines 339 to 345: \<open>while(1)\<close> around
  \<open>recvfrom\<close> into \<open>buffer\<close> and \<open>client_addr\<close>, left by \<open>break\<close> when the first
  \<open>sizeof(MAGIC_WORD)\<close> bytes of \<open>buffer\<close> compare equal to the magic word.
\<close>

fun wait_magic_v1 :: "state_v1 \<Rightarrow> recv_res list \<Rightarrow> state_v1 proc" where
  "wait_magic_v1 s [] = ([Sys_recvfrom], Wait)"
| "wait_magic_v1 s (r # rs) =
     (case sys_recvfrom r (buffer s) BUFSIZE (client_addr s) of
        (n, buf, addr) \<Rightarrow>
          (case strncmp MAGIC_WORD buf sizeof_MAGIC_WORD of
             None \<Rightarrow> ([Sys_recvfrom] @ perror_if (n < 0) ''recvfrom'', Undef)
           | Some c \<Rightarrow>
               if c = 0
               then ([Sys_recvfrom] @ perror_if (n < 0) ''recvfrom'',
                     Next (s\<lparr>buffer := buf, client_addr := addr\<rparr>))
               else
                 (case wait_magic_v1 (s\<lparr>buffer := buf, client_addr := addr\<rparr>) rs of
                    (ev, r') \<Rightarrow>
                      ([Sys_recvfrom] @ perror_if (n < 0) ''recvfrom''
                       @ [Stdout ''Bad magic word from %s:%i\<newline>''] @ ev, r'))))"

text \<open>The server, lines 312 to 351.\<close>

definition server_v1 :: "env \<Rightarrow> state_v1 \<Rightarrow> state_v1 proc" where
  "server_v1 e s =
     (if setsockopt_ret e < 0 then ([Sys_setsockopt, Perror ''setsockopt()''], Exit 1)
      else
        (let s1 = s\<lparr>server_addr := \<lparr>sin_addr = INADDR_ANY, sin_port = PORT_v1\<rparr>\<rparr>
         in if bind_ret e < 0
            then ([Sys_setsockopt, Sys_bind (server_addr s1), Perror ''bind()''], Exit 1)
            else
              seq ([Sys_setsockopt, Sys_bind (server_addr s1)],
                   Next (s1\<lparr>client_addr := \<lparr>sin_addr = 0, sin_port = 0\<rparr>\<rparr>))
                (\<lambda>s2. seq (wait_magic_v1 s2 (hs_recv e))
                   (\<lambda>s3. ([Sys_sendto (client_addr s3) (take sizeof_MAGIC_WORD MAGIC_WORD)]
                           @ perror_if (hs_sendto_ret e < 0) ''sendto''
                           @ do_debug s3 ''SERVER: Client connected from %s\<newline>'',
                           Next s3)))))"

subsection \<open>The relay loop\<close>

text \<open>The body of \<open>if(FD_ISSET(tap_fd, &rd_set))\<close>, lines 373 to 394.\<close>

definition tap2net_v1 :: "state_v1 \<Rightarrow> turn \<Rightarrow> event list \<times> state_v1" where
  "tap2net_v1 s t =
     (case sys_read (read_result t) (buffer s) BUFSIZE of
        (nread, buf) \<Rightarrow>
          ([Sys_read] @ perror_if (nread \<noteq> 0) ''read''
           @ (if cliserv s = CLIENT
              then [Sys_sendto (server_addr s) (take BUFSIZE buf)]
              else [Sys_sendto (client_addr s) (take BUFSIZE buf)])
           @ perror_if (sendto_ret t < 0) ''sendto'',
           s\<lparr>buffer := buf\<rparr>))"

text \<open>
  The body of \<open>if(FD_ISSET(sock_fd, &rd_set))\<close>, lines 396 to 424. The address
  argument of \<open>recvfrom\<close> is \<open>&server_addr\<close> in the client and \<open>&client_addr\<close> in
  the server: the variable that \<open>sendto\<close> reads above.
\<close>

definition net2tap_v1 :: "state_v1 \<Rightarrow> turn \<Rightarrow> event list \<times> state_v1" where
  "net2tap_v1 s t =
     (case (if cliserv s = CLIENT
            then (case sys_recvfrom (recv_result t) (buffer s) BUFSIZE (server_addr s) of
                    (nread, buf, addr) \<Rightarrow> (nread, s\<lparr>buffer := buf, server_addr := addr\<rparr>))
            else (case sys_recvfrom (recv_result t) (buffer s) BUFSIZE (client_addr s) of
                    (nread, buf, addr) \<Rightarrow> (nread, s\<lparr>buffer := buf, client_addr := addr\<rparr>))) of
        (nread, s1) \<Rightarrow>
          ([Sys_recvfrom] @ perror_if (nread \<noteq> 0) ''read''
           @ [Stdout ''Get packet in UDP tunnel\<newline>'']
           @ [Sys_write (take BUFSIZE (buffer s1))]
           @ perror_if (write_ret t < 0) ''write'',
           s1))"

text \<open>One turn of \<open>while(1)\<close>, lines 356 to 425.\<close>

definition relay_turn_v1 :: "state_v1 \<Rightarrow> turn \<Rightarrow> state_v1 proc" where
  "relay_turn_v1 s t =
     (if select_ret t < 0 \<and> select_errno t = EINTR then ([Sys_select], Next s)
      else if select_ret t < 0 then ([Sys_select, Perror ''select()''], Exit 1)
      else
        (case (if tap_isset t then tap2net_v1 s t else ([], s)) of
           (ev1, s1) \<Rightarrow>
             (case (if sock_isset t then net2tap_v1 s1 t else ([], s1)) of
                (ev2, s2) \<Rightarrow> ([Sys_select] @ ev1 @ ev2, Next s2))))"

fun relay_loop_v1 :: "state_v1 \<Rightarrow> turn list \<Rightarrow> state_v1 proc" where
  "relay_loop_v1 s [] = ([], Next s)"
| "relay_loop_v1 s (t # ts) = seq (relay_turn_v1 s t) (\<lambda>s'. relay_loop_v1 s' ts)"

subsection \<open>main\<close>

definition main_v1 :: "env \<Rightarrow> state_v1 proc" where
  "main_v1 e =
     seq (getopt_loop_v1 (init_v1 e) (getopt_results e))
       (\<lambda>s. seq (check_args_v1 e s)
          (\<lambda>s. seq (open_tun_v1 e s)
             (\<lambda>s. seq (open_socket e s)
                (\<lambda>s. seq (if cliserv s = CLIENT then client_v1 e s else server_v1 e s)
                   (\<lambda>s. relay_loop_v1 s (relay_script e))))))"

section \<open>tunneludp_v2.c\<close>

subsection \<open>Options\<close>

definition usage_v2 :: "'a proc" where
  "usage_v2 =
     ([Stderr ''Usage:\<newline>'',
       Stderr ''%s -i <ifacename> [-s|-c <serverIP>] [-p <port>]\<newline>'',
       Stderr ''%s -h\<newline>'',
       Stderr ''\<newline>'',
       Stderr ''-i <ifacename>: Name of interface to use (mandatory)\<newline>'',
       Stderr ''-s|-c <serverIP>: run in server mode (-s), or specify server address (-c <serverIP>) (mandatory)\<newline>'',
       Stderr ''-p <port>: port to listen on (if run in server mode) or to connect to (in client mode), default 55566\<newline>''],
      Exit 1)"

definition perror_usage_v2 :: "string \<Rightarrow> 'a proc" where
  "perror_usage_v2 msg = (case usage_v2 of (ev, r) \<Rightarrow> (Perror msg # ev, r))"

text \<open>The locals as declared, lines 123 to 139.\<close>

definition init_v2 :: "env \<Rightarrow> state_v2" where
  "init_v2 e =
     \<lparr>flags = IFF_TUN, if_name = [], header_len = IP_HDR_LEN, buffer = stack_buffer e,
      server_addr = stack_addr e, client_addr = stack_addr e, server_ip = [],
      cliserv = - 1, port = PORT_v2, remote_addr = stack_addr e, read_addr = stack_addr e,
      tap_count = 0, sock_count = 0\<rparr>"

text \<open>
  The loop over \<open>getopt\<close>, lines 144 to 166. \<open>port\<close> is an \<open>unsigned short\<close>: the
  \<open>int\<close> that \<open>atoi\<close> returns is reduced modulo \<open>2^16\<close>. The options \<open>u\<close>, \<open>a\<close> and \<open>d\<close> have
  no case and fall to \<open>default\<close>.
\<close>

fun getopt_loop_v2 :: "state_v2 \<Rightarrow> (char \<times> string) list \<Rightarrow> state_v2 proc" where
  "getopt_loop_v2 s [] = ([], Next s)"
| "getopt_loop_v2 s ((option, optarg) # rest) =
     (if option = CHR ''h'' then usage_v2
      else if option = CHR ''i''
        then getopt_loop_v2 (s\<lparr>if_name := take (IFNAMSIZ - 1) optarg\<rparr>) rest
      else if option = CHR ''s'' then getopt_loop_v2 (s\<lparr>cliserv := SERVER\<rparr>) rest
      else if option = CHR ''c''
        then getopt_loop_v2 (s\<lparr>cliserv := CLIENT, server_ip := take 15 optarg\<rparr>) rest
      else if option = CHR ''p''
        then getopt_loop_v2 (s\<lparr>port := word_of_int (atoi optarg)\<rparr>) rest
      else (case usage_v2 of (ev, r) \<Rightarrow> (Stdout ''Unknown option %c\<newline>'' # ev, r)))"

text \<open>The checks after the loop, lines 168 to 185.\<close>

definition check_args_v2 :: "env \<Rightarrow> state_v2 \<Rightarrow> state_v2 proc" where
  "check_args_v2 e s =
     (if extra_args e > 0 then perror_usage_v2 ''Too many options!\<newline>''
      else if if_name s = [] then perror_usage_v2 ''Must specify interface name!\<newline>''
      else if cliserv s < 0 then perror_usage_v2 ''Must specify client or server mode!\<newline>''
      else if cliserv s = CLIENT \<and> server_ip s = []
        then perror_usage_v2 ''Must specify server address!\<newline>''
      else ([], Next s))"

subsection \<open>Setup and handshake\<close>

text \<open>Lines 187 to 193.\<close>

definition open_tun_v2 :: "env \<Rightarrow> state_v2 \<Rightarrow> state_v2 proc" where
  "open_tun_v2 e s =
     (case tun_alloc e (if_name s) (flags s OR IFF_NO_PI) of
        (ev, tap_fd, dev) \<Rightarrow>
          if tap_fd < 0
          then (ev @ [Stdout ''Error connecting to tun/tap interface %s!\<newline>''], Exit 1)
          else (ev @ [Stdout ''Successfully connected to interface %s\<newline>''],
                Next (s\<lparr>if_name := dev\<rparr>)))"

text \<open>
  The client, lines 202 to 230. The third argument of \<open>strncmp\<close> is
  \<open>sizeof(MAGIC_WORD) != 0\<close>.
\<close>

definition client_v2 :: "env \<Rightarrow> state_v2 \<Rightarrow> state_v2 proc" where
  "client_v2 e s =
     (let s1 = s\<lparr>client_addr := \<lparr>sin_addr = INADDR_ANY, sin_port = port s\<rparr>\<rparr>;
          s2 = s1\<lparr>server_addr :=
                    inet_aton_into e (server_ip s1) \<lparr>sin_addr = 0, sin_port = port s1\<rparr>\<rparr>
      in if bind_ret e < 0 then ([Sys_bind (client_addr s2), Perror ''bind''], Exit 1)
         else
           (let ev = [Sys_bind (client_addr s2),
                      Sys_sendto (server_addr s2) (take sizeof_MAGIC_WORD MAGIC_WORD)]
                     @ perror_if (hs_sendto_ret e < 0) ''sendto magic word''
            in case hs_recv e of
                 [] \<Rightarrow> (ev @ [Sys_recvfrom], Wait)
               | r # rs \<Rightarrow>
                   (case sys_recvfrom r (buffer s2) BUFSIZE (server_addr s2) of
                      (n, buf, addr) \<Rightarrow>
                        (case strncmp MAGIC_WORD buf (if sizeof_MAGIC_WORD \<noteq> 0 then 1 else 0) of
                           None \<Rightarrow> (ev @ [Sys_recvfrom] @ perror_if (n < 0) ''recvfrom'', Undef)
                         | Some c \<Rightarrow>
                             if c \<noteq> 0
                             then (ev @ [Sys_recvfrom] @ perror_if (n < 0) ''recvfrom''
                                   @ [Perror ''Bad magic word for peer\<newline>''], Exit 1)
                             else (ev @ [Sys_recvfrom] @ perror_if (n < 0) ''recvfrom''
                                   @ [Stdout ''Connection with %s:%i established\<newline>''],
                                   Next (s2\<lparr>buffer := buf, server_addr := addr,
                                             remote_addr := addr\<rparr>))))))"

text \<open>
  The server, lines 231 to 269: one \<open>recvfrom\<close>, and \<open>exit(1)\<close> when the first
  \<open>sizeof(MAGIC_WORD)\<close> bytes of \<open>buffer\<close> do not compare equal to the magic word.
\<close>

definition server_v2 :: "env \<Rightarrow> state_v2 \<Rightarrow> state_v2 proc" where
  "server_v2 e s =
     (if setsockopt_ret e < 0 then ([Sys_setsockopt, Perror ''setsockopt''], Exit 1)
      else
        (let s1 = s\<lparr>server_addr := \<lparr>sin_addr = INADDR_ANY, sin_port = port s\<rparr>\<rparr>
         in if bind_ret e < 0
            then ([Sys_setsockopt, Sys_bind (server_addr s1), Perror ''bind''], Exit 1)
            else
              (case hs_recv e of
                 [] \<Rightarrow> ([Sys_setsockopt, Sys_bind (server_addr s1), Sys_recvfrom], Wait)
               | r # rs \<Rightarrow>
                   (case sys_recvfrom r (buffer s1) BUFSIZE (client_addr s1) of
                      (n, buf, addr) \<Rightarrow>
                        (let ev = [Sys_setsockopt, Sys_bind (server_addr s1), Sys_recvfrom]
                                  @ perror_if (n < 0) ''recvfrom''
                         in case strncmp MAGIC_WORD buf sizeof_MAGIC_WORD of
                              None \<Rightarrow> (ev, Undef)
                            | Some c \<Rightarrow>
                                if c \<noteq> 0
                                then (ev @ [Perror ''Bad magic word for peer\<newline>''], Exit 1)
                                else (ev @ [Sys_sendto addr (take sizeof_MAGIC_WORD MAGIC_WORD)]
                                      @ perror_if (hs_sendto_ret e < 0) ''sendto''
                                      @ [Stdout ''SERVER: Client connected from %s\<newline>''],
                                      Next (s1\<lparr>buffer := buf, client_addr := addr,
                                                remote_addr := addr\<rparr>)))))))"

subsection \<open>The relay loop\<close>

text \<open>The body of \<open>if(FD_ISSET(tap_fd, &rd_set))\<close>, lines 290 to 298.\<close>

definition tap2net_v2 :: "state_v2 \<Rightarrow> turn \<Rightarrow> event list \<times> state_v2" where
  "tap2net_v2 s t =
     (case sys_read (read_result t) (buffer s) BUFSIZE of
        (nread, buf) \<Rightarrow>
          ([Sys_read] @ perror_if (nread \<noteq> 0) ''read from virtual''
           @ [Sys_sendto (remote_addr s) (take BUFSIZE buf)]
           @ perror_if (sendto_ret t < 0) ''sendto network''
           @ [Stdout ''Get packet from virtual -> real NIC %d\<newline>''],
           s\<lparr>buffer := buf, tap_count := tap_count s + 1\<rparr>))"

text \<open>
  The body of \<open>if(FD_ISSET(sock_fd, &rd_set))\<close>, lines 300 to 310, statement by
  statement: the \<open>recvfrom\<close> with its \<open>perror\<close>, the assignment
  \<open>remote_addr = read_addr\<close>, and the \<open>write\<close> with its \<open>perror\<close> and the \<open>printf\<close>.
\<close>

definition net_recvfrom_v2 :: "state_v2 \<Rightarrow> turn \<Rightarrow> event list \<times> state_v2" where
  "net_recvfrom_v2 s t =
     (case sys_recvfrom (recv_result t) (buffer s) BUFSIZE (read_addr s) of
        (nread, buf, addr) \<Rightarrow>
          ([Sys_recvfrom] @ perror_if (nread \<noteq> 0) ''read from network'',
           s\<lparr>buffer := buf, read_addr := addr\<rparr>))"

definition net_assign_v2 :: "state_v2 \<Rightarrow> state_v2" where
  "net_assign_v2 s = s\<lparr>remote_addr := read_addr s\<rparr>"

definition net_write_v2 :: "state_v2 \<Rightarrow> turn \<Rightarrow> event list \<times> state_v2" where
  "net_write_v2 s t =
     ([Sys_write (take BUFSIZE (buffer s))]
      @ perror_if (write_ret t < 0) ''write to virtual''
      @ [Stdout ''Get packet from real -> virtual NIC %d\<newline>''],
      s\<lparr>sock_count := sock_count s + 1\<rparr>)"

definition net2tap_v2 :: "state_v2 \<Rightarrow> turn \<Rightarrow> event list \<times> state_v2" where
  "net2tap_v2 s t =
     (case net_recvfrom_v2 s t of
        (ev1, s1) \<Rightarrow>
          (case net_write_v2 (net_assign_v2 s1) t of
             (ev2, s2) \<Rightarrow> (ev1 @ ev2, s2)))"

text \<open>One turn of \<open>while(1)\<close>, lines 274 to 311.\<close>

definition relay_turn_v2 :: "state_v2 \<Rightarrow> turn \<Rightarrow> state_v2 proc" where
  "relay_turn_v2 s t =
     (if select_ret t < 0 \<and> select_errno t = EINTR then ([Sys_select], Next s)
      else if select_ret t < 0 then ([Sys_select, Perror ''select()''], Exit 1)
      else
        (case (if tap_isset t then tap2net_v2 s t else ([], s)) of
           (ev1, s1) \<Rightarrow>
             (case (if sock_isset t then net2tap_v2 s1 t else ([], s1)) of
                (ev2, s2) \<Rightarrow> ([Sys_select] @ ev1 @ ev2, Next s2))))"

text \<open>
  The loop over the answers of the environment. It has no exit of its own: when the
  script is used up the process waits in \<open>select\<close>, in the state \<open>Next s\<close>.
\<close>

fun relay_loop_v2 :: "state_v2 \<Rightarrow> turn list \<Rightarrow> state_v2 proc" where
  "relay_loop_v2 s [] = ([], Next s)"
| "relay_loop_v2 s (t # ts) = seq (relay_turn_v2 s t) (\<lambda>s'. relay_loop_v2 s' ts)"

subsection \<open>main\<close>

definition main_v2 :: "env \<Rightarrow> state_v2 proc" where
  "main_v2 e =
     seq (getopt_loop_v2 (init_v2 e) (getopt_results e))
       (\<lambda>s. seq (check_args_v2 e s)
          (\<lambda>s. seq (open_tun_v2 e s)
             (\<lambda>s. seq (open_socket e s)
                (\<lambda>s. seq (if cliserv s = CLIENT then client_v2 e s else server_v2 e s)
                   (\<lambda>s. relay_loop_v2 s (relay_script e))))))"

section \<open>What a trace shows\<close>

text \<open>The destinations of the datagrams sent, in order.\<close>

fun dest :: "event \<Rightarrow> sockaddr_in list" where
  "dest (Sys_sendto a d) = [a]"
| "dest e = []"

definition destinations :: "event list \<Rightarrow> sockaddr_in list" where
  "destinations ev = concat (map dest ev)"

text \<open>The buffers handed to \<open>sendto\<close> and to \<open>write\<close>, in order.\<close>

fun moved :: "event \<Rightarrow> char list list" where
  "moved (Sys_sendto a d) = [d]"
| "moved (Sys_write d) = [d]"
| "moved e = []"

definition transfers :: "event list \<Rightarrow> char list list" where
  "transfers ev = concat (map moved ev)"

text \<open>The addresses handed to \<open>bind\<close>, in order.\<close>

fun bound :: "event \<Rightarrow> sockaddr_in list" where
  "bound (Sys_bind a) = [a]"
| "bound e = []"

definition bindings :: "event list \<Rightarrow> sockaddr_in list" where
  "bindings ev = concat (map bound ev)"

text \<open>How often a turn takes data from the device and from the socket, and how often it hands data on.\<close>

definition reads :: "event list \<Rightarrow> nat" where
  "reads ev = count_list ev Sys_read"

definition recvs :: "event list \<Rightarrow> nat" where
  "recvs ev = count_list ev Sys_recvfrom"

fun is_sendto :: "event \<Rightarrow> bool" where
  "is_sendto (Sys_sendto a d) = True"
| "is_sendto e = False"

fun is_write :: "event \<Rightarrow> bool" where
  "is_write (Sys_write d) = True"
| "is_write e = False"

definition sends :: "event list \<Rightarrow> nat" where
  "sends ev = length (filter is_sendto ev)"

definition writes :: "event list \<Rightarrow> nat" where
  "writes ev = length (filter is_write ev)"

text \<open>The calls that move data, in the order in which the trace has them.\<close>

datatype io_call = Call_read | Call_sendto | Call_recvfrom | Call_write

fun call_of :: "event \<Rightarrow> io_call list" where
  "call_of Sys_read = [Call_read]"
| "call_of (Sys_sendto a d) = [Call_sendto]"
| "call_of Sys_recvfrom = [Call_recvfrom]"
| "call_of (Sys_write d) = [Call_write]"
| "call_of e = []"

definition io_calls :: "event list \<Rightarrow> io_call list" where
  "io_calls ev = concat (map call_of ev)"

text \<open>
  The array \<open>buffer\<close> after the \<open>read\<close> and after the \<open>recvfrom\<close> of a turn: a call
  that fails leaves it as it was.
\<close>

definition after_read :: "turn \<Rightarrow> char list \<Rightarrow> char list" where
  "after_read t buf =
     (case read_result t of Read_failed \<Rightarrow> buf | Read_frame d \<Rightarrow> store buf (take BUFSIZE d))"

definition after_recv :: "turn \<Rightarrow> char list \<Rightarrow> char list" where
  "after_recv t buf =
     (case recv_result t of Recv_failed \<Rightarrow> buf | Datagram a d \<Rightarrow> store buf (take BUFSIZE d))"

text \<open>
  The part of \<open>main\<close> of tunneludp_v1.c before the handshake, lines 215 to 284: the
  options, their checks, the device and the socket. \<open>main\<close> is this part, then the
  client or the server, then the relay loop.
\<close>

definition setup_v1 :: "env \<Rightarrow> state_v1 proc" where
  "setup_v1 e =
     seq (getopt_loop_v1 (init_v1 e) (getopt_results e))
       (\<lambda>s. seq (check_args_v1 e s) (\<lambda>s. seq (open_tun_v1 e s) (\<lambda>s. open_socket e s)))"

text \<open>
  The sources of the datagrams that the environment delivers: during the handshake,
  and in the turns of the relay loop in which \<open>select\<close> reports the socket ready.
\<close>

fun src_of :: "recv_res \<Rightarrow> sockaddr_in list" where
  "src_of (Datagram a d) = [a]"
| "src_of Recv_failed = []"

definition received_from :: "env \<Rightarrow> sockaddr_in list" where
  "received_from e =
     concat (map src_of (hs_recv e))
     @ concat (map (\<lambda>t. if \<not> select_ret t < 0 \<and> sock_isset t then src_of (recv_result t) else [])
         (relay_script e))"

text \<open>
  A turn in which nothing is ready: \<open>select\<close> is interrupted by a signal, or it
  returns with neither descriptor set.
\<close>

definition idle :: "turn \<Rightarrow> bool" where
  "idle t =
     (if select_ret t < 0 then select_errno t = EINTR else \<not> tap_isset t \<and> \<not> sock_isset t)"

text \<open>
  The address that the relay loop of tunneludp_v1.c sends to: \<open>server_addr\<close> in the
  client, \<open>client_addr\<close> in the server (lines 388 to 392).
\<close>

definition peer_v1 :: "state_v1 \<Rightarrow> sockaddr_in" where
  "peer_v1 s = (if cliserv s = CLIENT then server_addr s else client_addr s)"

section \<open>Concrete runs\<close>

definition ex_P :: sockaddr_in where
  "ex_P = \<lparr>sin_addr = 0x0A000005, sin_port = 5588\<rparr>"

definition ex_Q :: sockaddr_in where
  "ex_Q = \<lparr>sin_addr = 0x0A000009, sin_port = 40000\<rparr>"

text \<open>A datagram from \<open>ex_Q\<close> is ready on the socket; nothing on the device.\<close>

definition ex_turn_net :: turn where
  "ex_turn_net =
     \<lparr>select_ret = 1, select_errno = 0, tap_isset = False, sock_isset = True,
      read_result = Read_failed, sendto_ret = 4096,
      recv_result = Datagram ex_Q ''ping'', write_ret = 4096\<rparr>"

text \<open>A frame is ready on the device; nothing on the socket.\<close>

definition ex_turn_tap :: turn where
  "ex_turn_tap =
     \<lparr>select_ret = 1, select_errno = 0, tap_isset = True, sock_isset = False,
      read_result = Read_frame ''frame'', sendto_ret = 4096,
      recv_result = Recv_failed, write_ret = 4096\<rparr>"

text \<open>Both are ready.\<close>

definition ex_turn_both :: turn where
  "ex_turn_both =
     \<lparr>select_ret = 2, select_errno = 0, tap_isset = True, sock_isset = True,
      read_result = Read_frame ''frame'', sendto_ret = 4096,
      recv_result = Datagram ex_Q ''ping'', write_ret = 4096\<rparr>"

text \<open>Both are ready and each of the four calls fails.\<close>

definition ex_turn_fail :: turn where
  "ex_turn_fail =
     \<lparr>select_ret = 2, select_errno = 0, tap_isset = True, sock_isset = True,
      read_result = Read_failed, sendto_ret = - 1,
      recv_result = Recv_failed, write_ret = - 1\<rparr>"

text \<open>\<open>select\<close> fails, interrupted by a signal; and fails with \<open>EBADF\<close>.\<close>

definition ex_turn_eintr :: turn where
  "ex_turn_eintr = ex_turn_both\<lparr>select_ret := - 1, select_errno := EINTR\<rparr>"

definition ex_turn_ebadf :: turn where
  "ex_turn_ebadf = ex_turn_both\<lparr>select_ret := - 1, select_errno := 9\<rparr>"

text \<open>The two programs in the relay loop, as servers whose handshake was with \<open>ex_P\<close>.\<close>

definition ex_state_v1 :: state_v1 where
  "ex_state_v1 =
     \<lparr>flags = IFF_TUN, if_name = ''tun0'', header_len = IP_HDR_LEN,
      buffer = replicate BUFSIZE (CHR 0x00),
      server_addr = \<lparr>sin_addr = INADDR_ANY, sin_port = PORT_v1\<rparr>, client_addr = ex_P,
      server_ip = [], cliserv = SERVER, debug = False\<rparr>"

definition ex_state_v2 :: state_v2 where
  "ex_state_v2 =
     \<lparr>flags = IFF_TUN, if_name = ''tun0'', header_len = IP_HDR_LEN,
      buffer = replicate BUFSIZE (CHR 0x00),
      server_addr = \<lparr>sin_addr = INADDR_ANY, sin_port = PORT_v2\<rparr>, client_addr = ex_P,
      server_ip = [], cliserv = SERVER, port = PORT_v2, remote_addr = ex_P,
      read_addr = \<lparr>sin_addr = 0, sin_port = 0\<rparr>, tap_count = 0, sock_count = 0\<rparr>"

text \<open>
  A run as server (\<open>-i tun0 -s\<close>): every call of the setup succeeds, the first
  datagram is \<open>hello\<close> from \<open>ex_P\<close>, the second the magic word from \<open>ex_Q\<close>.
\<close>

definition ex_server :: env where
  "ex_server =
     \<lparr>getopt_results = [(CHR ''i'', ''tun0''), (CHR ''s'', [])], extra_args = 0,
      open_ret = 3, ioctl_ret = 0, ifr_name = ''tun0'', socket_ret = 4, setsockopt_ret = 0,
      bind_ret = 0, inet_aton = (\<lambda>ip. None), hs_sendto_ret = 21,
      hs_recv = [Datagram ex_P ''hello'', Datagram ex_Q MAGIC_WORD],
      stack_buffer = replicate BUFSIZE (CHR 0x00),
      stack_addr = \<lparr>sin_addr = 0, sin_port = 0\<rparr>, relay_script = []\<rparr>"

text \<open>
  A run as client (\<open>-i tun0 -c 10.0.0.5\<close>): every call of the setup succeeds, and
  the reply to the magic word is \<open>Wrong\<close>, from \<open>ex_P\<close>; then a frame is ready on
  the device.
\<close>

definition ex_client :: env where
  "ex_client =
     \<lparr>getopt_results = [(CHR ''i'', ''tun0''), (CHR ''c'', ''10.0.0.5'')], extra_args = 0,
      open_ret = 3, ioctl_ret = 0, ifr_name = ''tun0'', socket_ret = 4, setsockopt_ret = 0,
      bind_ret = 0, inet_aton = (\<lambda>ip. Some 0x0A000005), hs_sendto_ret = 21,
      hs_recv = [Datagram ex_P ''Wrong''],
      stack_buffer = replicate BUFSIZE (CHR 0x00),
      stack_addr = \<lparr>sin_addr = 0, sin_port = 0\<rparr>, relay_script = [ex_turn_tap]\<rparr>"

text \<open>The same client when \<open>bind\<close> fails, and the peer answers with the magic word.\<close>

definition ex_client_unbound :: env where
  "ex_client_unbound =
     ex_client\<lparr>bind_ret := - 1, hs_recv := [Datagram ex_P MAGIC_WORD]\<rparr>"

text \<open>
  A run as server in which the handshake is with \<open>ex_P\<close>; then a datagram arrives
  from \<open>ex_Q\<close>, and then a frame is ready on the device.
\<close>

definition ex_server_relay :: env where
  "ex_server_relay =
     ex_server\<lparr>hs_recv := [Datagram ex_P MAGIC_WORD],
                relay_script := [ex_turn_net, ex_turn_tap]\<rparr>"

text \<open>The client started with \<open>-i tun0 -p 1234 -c 10.0.0.5\<close>.\<close>

definition ex_client_p :: env where
  "ex_client_p =
     ex_client\<lparr>getopt_results :=
                  [(CHR ''i'', ''tun0''), (CHR ''p'', ''1234''), (CHR ''c'', ''10.0.0.5'')]\<rparr>"

text \<open>The server started with \<open>-i tun0 -p 1234 -s\<close>; the magic word comes from \<open>ex_Q\<close>.\<close>

definition ex_server_p :: env where
  "ex_server_p =
     ex_server\<lparr>getopt_results := [(CHR ''i'', ''tun0''), (CHR ''p'', ''1234''), (CHR ''s'', [])],
                hs_recv := [Datagram ex_Q MAGIC_WORD]\<rparr>"

section \<open>Facts about the calls\<close>

lemma length_store [simp]: "length (store buf d) = length buf"
  by (simp add: store_def)

lemma sys_recvfrom_simps [simp]:
  "sys_recvfrom Recv_failed buf n a = (- 1, buf, a)"
  "snd (snd (sys_recvfrom (Datagram Q d) buf n a)) = Q"
  "fst (snd (sys_recvfrom (Datagram Q d) buf n a)) = store buf (take n d)"
  "fst (sys_recvfrom (Datagram Q d) buf n a) = int (length (take n d))"
  by (simp_all add: sys_recvfrom_def)

lemma sys_read_simps [simp]:
  "sys_read Read_failed buf n = (- 1, buf)"
  "snd (sys_read (Read_frame d) buf n) = store buf (take n d)"
  "fst (sys_read (Read_frame d) buf n) = int (length (take n d))"
  by (simp_all add: sys_read_def)

lemma length_sys_read [simp]: "length (snd (sys_read r buf n)) = length buf"
  by (cases r) simp_all

lemma length_sys_recvfrom [simp]: "length (fst (snd (sys_recvfrom r buf n a))) = length buf"
  by (cases r) simp_all

lemma destinations_simps [simp]:
  "destinations [] = []"
  "destinations (e # ev) = dest e @ destinations ev"
  "destinations (ev @ ev') = destinations ev @ destinations ev'"
  "destinations (perror_if b m) = []"
  by (simp_all add: destinations_def perror_if_def)

lemma transfers_simps [simp]:
  "transfers [] = []"
  "transfers (e # ev) = moved e @ transfers ev"
  "transfers (ev @ ev') = transfers ev @ transfers ev'"
  "transfers (perror_if b m) = []"
  by (simp_all add: transfers_def perror_if_def)

lemma bindings_simps [simp]:
  "bindings [] = []"
  "bindings (e # ev) = bound e @ bindings ev"
  "bindings (ev @ ev') = bindings ev @ bindings ev'"
  "bindings (perror_if b m) = []"
  by (simp_all add: bindings_def perror_if_def)

lemma reads_simps [simp]:
  "reads [] = 0"
  "reads (e # ev) = (if e = Sys_read then 1 else 0) + reads ev"
  "reads (ev @ ev') = reads ev + reads ev'"
  "reads (perror_if b m) = 0"
  by (simp_all add: reads_def perror_if_def)

lemma recvs_simps [simp]:
  "recvs [] = 0"
  "recvs (e # ev) = (if e = Sys_recvfrom then 1 else 0) + recvs ev"
  "recvs (ev @ ev') = recvs ev + recvs ev'"
  "recvs (perror_if b m) = 0"
  by (simp_all add: recvs_def perror_if_def)

lemma sends_simps [simp]:
  "sends [] = 0"
  "sends (e # ev) = (if is_sendto e then 1 else 0) + sends ev"
  "sends (ev @ ev') = sends ev + sends ev'"
  "sends (perror_if b m) = 0"
  by (simp_all add: sends_def perror_if_def)

lemma writes_simps [simp]:
  "writes [] = 0"
  "writes (e # ev) = (if is_write e then 1 else 0) + writes ev"
  "writes (ev @ ev') = writes ev + writes ev'"
  "writes (perror_if b m) = 0"
  by (simp_all add: writes_def perror_if_def)

lemma io_calls_simps [simp]:
  "io_calls [] = []"
  "io_calls (e # ev) = call_of e @ io_calls ev"
  "io_calls (ev @ ev') = io_calls ev @ io_calls ev'"
  "io_calls (perror_if b m) = []"
  by (simp_all add: io_calls_def perror_if_def)

lemma buffer_after_read: "snd (sys_read (read_result t) buf BUFSIZE) = after_read t buf"
  by (simp add: after_read_def sys_read_def split: read_res.splits)

lemma buffer_after_recv:
  "fst (snd (sys_recvfrom (recv_result t) buf BUFSIZE a)) = after_recv t buf"
  by (simp add: after_recv_def sys_recvfrom_def split: recv_res.splits)

lemma seq_simps [simp]:
  "seq (ev, Exit n) f = (ev, Exit n)"
  "seq (ev, Wait) f = (ev, Wait)"
  "seq (ev, Undef) f = (ev, Undef)"
  "seq (ev, Next a) f = (ev @ fst (f a), snd (f a))"
  by (simp_all add: seq_def split_beta)

lemma seq_Next: "snd p = Next a \<Longrightarrow> seq p f = (fst p @ fst (f a), snd (f a))"
  by (cases p) simp

lemma seq_Exit: "snd p = Exit n \<Longrightarrow> seq p f = (fst p, Exit n)"
  by (cases p) simp

section \<open>Facts about one turn of the relay loop\<close>

lemma tap2net_v1_facts:
  "peer_v1 (snd (tap2net_v1 s t)) = peer_v1 s"
  "cliserv (snd (tap2net_v1 s t)) = cliserv s"
  "length (buffer (snd (tap2net_v1 s t))) = length (buffer s)"
  "destinations (fst (tap2net_v1 s t)) = [peer_v1 s]"
  by (simp_all add: tap2net_v1_def peer_v1_def split_beta)

lemma net2tap_v1_facts:
  "destinations (fst (net2tap_v1 s t)) = []"
  "cliserv (snd (net2tap_v1 s t)) = cliserv s"
  "length (buffer (snd (net2tap_v1 s t))) = length (buffer s)"
  "recv_result t = Datagram Q d \<Longrightarrow> peer_v1 (snd (net2tap_v1 s t)) = Q"
  "recv_result t = Recv_failed \<Longrightarrow> peer_v1 (snd (net2tap_v1 s t)) = peer_v1 s"
  by (simp_all add: net2tap_v1_def peer_v1_def split_beta)

lemma tap2net_v2_facts:
  "remote_addr (snd (tap2net_v2 s t)) = remote_addr s"
  "length (buffer (snd (tap2net_v2 s t))) = length (buffer s)"
  "destinations (fst (tap2net_v2 s t)) = [remote_addr s]"
  by (simp_all add: tap2net_v2_def split_beta)

lemma net2tap_v2_facts:
  "destinations (fst (net2tap_v2 s t)) = []"
  "length (buffer (snd (net2tap_v2 s t))) = length (buffer s)"
  "recv_result t = Datagram Q d \<Longrightarrow> remote_addr (snd (net2tap_v2 s t)) = Q"
  by (simp_all add: net2tap_v2_def net_recvfrom_v2_def net_assign_v2_def net_write_v2_def
      split_beta)

text \<open>A turn in which \<open>select\<close> does not fail ends in the next state, never in \<open>exit\<close>.\<close>

lemma relay_turn_v1_Next:
  "\<not> select_ret t < 0 \<Longrightarrow>
   relay_turn_v1 s t =
     ([Sys_select] @ (if tap_isset t then fst (tap2net_v1 s t) else [])
      @ (if sock_isset t
         then fst (net2tap_v1 (if tap_isset t then snd (tap2net_v1 s t) else s) t) else []),
      Next (if sock_isset t
            then snd (net2tap_v1 (if tap_isset t then snd (tap2net_v1 s t) else s) t)
            else if tap_isset t then snd (tap2net_v1 s t) else s))"
  by (simp add: relay_turn_v1_def split_beta)

lemma relay_turn_v2_Next:
  "\<not> select_ret t < 0 \<Longrightarrow>
   relay_turn_v2 s t =
     ([Sys_select] @ (if tap_isset t then fst (tap2net_v2 s t) else [])
      @ (if sock_isset t
         then fst (net2tap_v2 (if tap_isset t then snd (tap2net_v2 s t) else s) t) else []),
      Next (if sock_isset t
            then snd (net2tap_v2 (if tap_isset t then snd (tap2net_v2 s t) else s) t)
            else if tap_isset t then snd (tap2net_v2 s t) else s))"
  by (simp add: relay_turn_v2_def split_beta)

lemma set_perror_if [simp]: "set (perror_if b m) = (if b then {Perror m} else {})"
  by (simp add: perror_if_def)

lemma relay_turn_v1_length:
  "snd (relay_turn_v1 s t) = Next s' \<Longrightarrow> length (buffer s') = length (buffer s)"
  by (auto simp: relay_turn_v1_def split_beta tap2net_v1_facts net2tap_v1_facts
      split: if_splits)

lemma relay_turn_v2_length:
  "snd (relay_turn_v2 s t) = Next s' \<Longrightarrow> length (buffer s') = length (buffer s)"
  by (auto simp: relay_turn_v2_def split_beta tap2net_v2_facts net2tap_v2_facts
      split: if_splits)

lemma relay_turn_v1_transfers:
  "BUFSIZE \<le> length (buffer s) \<Longrightarrow>
   list_all (\<lambda>d. length d = BUFSIZE) (transfers (fst (relay_turn_v1 s t)))"
  by (simp add: relay_turn_v1_def tap2net_v1_def net2tap_v1_def split_beta)

lemma relay_turn_v2_transfers:
  "BUFSIZE \<le> length (buffer s) \<Longrightarrow>
   list_all (\<lambda>d. length d = BUFSIZE) (transfers (fst (relay_turn_v2 s t)))"
  by (simp add: relay_turn_v2_def tap2net_v2_def net2tap_v2_def net_recvfrom_v2_def
      net_assign_v2_def net_write_v2_def split_beta)

lemma relay_loop_v1_transfers:
  "BUFSIZE \<le> length (buffer s) \<Longrightarrow>
   list_all (\<lambda>d. length d = BUFSIZE) (transfers (fst (relay_loop_v1 s ts)))"
proof (induction ts arbitrary: s)
  case Nil
  show ?case by simp
next
  case (Cons t ts)
  show ?case
  proof (cases "snd (relay_turn_v1 s t)")
    case (Next s')
    with Cons.prems have "BUFSIZE \<le> length (buffer s')"
      by (simp add: relay_turn_v1_length)
    with Cons.IH [of s'] Cons.prems Next show ?thesis
      by (simp add: seq_Next relay_turn_v1_transfers)
  qed (use Cons.prems in \<open>simp_all add: seq_def split_beta relay_turn_v1_transfers\<close>)
qed

lemma relay_loop_v2_transfers:
  "BUFSIZE \<le> length (buffer s) \<Longrightarrow>
   list_all (\<lambda>d. length d = BUFSIZE) (transfers (fst (relay_loop_v2 s ts)))"
proof (induction ts arbitrary: s)
  case Nil
  show ?case by simp
next
  case (Cons t ts)
  show ?case
  proof (cases "snd (relay_turn_v2 s t)")
    case (Next s')
    with Cons.prems have "BUFSIZE \<le> length (buffer s')"
      by (simp add: relay_turn_v2_length)
    with Cons.IH [of s'] Cons.prems Next show ?thesis
      by (simp add: seq_Next relay_turn_v2_transfers)
  qed (use Cons.prems in \<open>simp_all add: seq_def split_beta relay_turn_v2_transfers\<close>)
qed

lemma relay_loop_v1_idle:
  "list_all idle qs \<Longrightarrow>
   relay_loop_v1 s (qs @ ts) =
     (replicate (length qs) Sys_select @ fst (relay_loop_v1 s ts), snd (relay_loop_v1 s ts))"
  by (induction qs) (simp_all add: idle_def relay_turn_v1_def split: if_splits)

lemma relay_loop_v2_idle:
  "list_all idle qs \<Longrightarrow>
   relay_loop_v2 s (qs @ ts) =
     (replicate (length qs) Sys_select @ fst (relay_loop_v2 s ts), snd (relay_loop_v2 s ts))"
  by (induction qs) (simp_all add: idle_def relay_turn_v2_def split: if_splits)

lemma destinations_replicate_select [simp]: "destinations (replicate n Sys_select) = []"
  by (induction n) simp_all

lemmas relay_defs = relay_turn_v1_def tap2net_v1_def net2tap_v1_def relay_turn_v2_def
  tap2net_v2_def net2tap_v2_def net_recvfrom_v2_def net_assign_v2_def net_write_v2_def
  sys_read_def sys_recvfrom_def perror_if_def

lemmas const_defs = BUFSIZE_def CLIENT_def SERVER_def PORT_v1_def PORT_v2_def MAGIC_WORD_def
  sizeof_MAGIC_WORD_def EINTR_def IFNAMSIZ_def IFF_TUN_def IFF_TAP_def IFF_NO_PI_def
  IP_HDR_LEN_def ETH_HDR_LEN_def INADDR_ANY_def

section \<open>Facts about the magic word\<close>

lemma strncmp_numeral [simp]:
  "strncmp (c1 # s1) (c2 # s2) (numeral k) =
     (if c1 \<noteq> c2 then Some (of_char c1 - of_char c2)
      else if c1 = CHR 0x00 then Some 0
      else strncmp s1 s2 (pred_numeral k))"
  by (simp add: numeral_eq_Suc)

lemma strncmp_1 [simp]:
  "strncmp (c1 # s1) (c2 # s2) 1 =
     (if c1 \<noteq> c2 then Some (of_char c1 - of_char c2) else Some 0)"
  by simp

lemma of_char_eq_0: "(of_char c :: int) = 0 \<longleftrightarrow> c = CHR 0x00"
  using of_char_eq_iff [of c "CHR 0x00", where ?'a = int] by simp

text \<open>
  For a string without NUL followed by its NUL, \<open>strncmp\<close> over its whole length is
  the comparison of that many bytes.
\<close>

lemma strncmp_terminated:
  "CHR 0x00 \<notin> set w \<Longrightarrow> Suc (length w) \<le> length buf \<Longrightarrow>
   \<exists>c. strncmp (w @ [CHR 0x00]) buf (Suc (length w)) = Some c \<and>
       (c = 0 \<longleftrightarrow> take (Suc (length w)) buf = w @ [CHR 0x00])"
proof (induction w arbitrary: buf)
  case Nil
  then obtain b bs where "buf = b # bs"
    by (cases buf) auto
  then show ?case
    by (auto simp: of_char_eq_0)
next
  case (Cons x w)
  then obtain b bs where buf: "buf = b # bs"
    by (cases buf) auto
  with Cons.prems have "CHR 0x00 \<notin> set w" "Suc (length w) \<le> length bs" "x \<noteq> CHR 0x00"
    by auto
  with Cons.IH [of bs] buf show ?case
    by (auto simp: of_char_eq_0)
qed

lemma strncmp_MAGIC_WORD:
  "sizeof_MAGIC_WORD \<le> length buf \<Longrightarrow>
   \<exists>c. strncmp MAGIC_WORD buf sizeof_MAGIC_WORD = Some c \<and>
       (c = 0 \<longleftrightarrow> take sizeof_MAGIC_WORD buf = MAGIC_WORD)"
  using strncmp_terminated [of "''Wazaaaaaaaaaaahhhh !''" buf]
  by (simp add: MAGIC_WORD_def sizeof_MAGIC_WORD_def)

lemma sizeof_MAGIC_WORD_le: "sizeof_MAGIC_WORD \<le> BUFSIZE"
  by (simp add: MAGIC_WORD_def sizeof_MAGIC_WORD_def BUFSIZE_def)

text \<open>
  A payload of at least \<open>sizeof(MAGIC_WORD)\<close> bytes decides the comparison by
  itself; a shorter one leaves bytes of an earlier datagram, or of the stack, in the
  range that is compared.
\<close>

lemma long_payload_in_buffer:
  "sizeof_MAGIC_WORD \<le> length d \<Longrightarrow> length buf = BUFSIZE \<Longrightarrow>
   take sizeof_MAGIC_WORD (store buf (take BUFSIZE d)) = take sizeof_MAGIC_WORD d"
  using sizeof_MAGIC_WORD_le by (simp add: store_def min_def)

lemma short_payload_completed_by_stale_bytes:
  "length buf = BUFSIZE \<Longrightarrow>
   take sizeof_MAGIC_WORD (store (store buf (CHR ''X'' # tl MAGIC_WORD)) ''W'') = MAGIC_WORD"
  by (simp add: store_def const_defs)

text \<open>
  One turn of the wait of the server of tunneludp_v1.c, for a buffer of \<open>BUFSIZE\<close>
  bytes: the comparison is that of the first \<open>sizeof(MAGIC_WORD)\<close> bytes.
\<close>

lemma wait_magic_v1_Cons:
  assumes "length (buffer s) = BUFSIZE"
  defines "R \<equiv> \<lambda>r. sys_recvfrom r (buffer s) BUFSIZE (client_addr s)"
  defines "s1 \<equiv> \<lambda>r. s\<lparr>buffer := fst (snd (R r)), client_addr := snd (snd (R r))\<rparr>"
  shows "wait_magic_v1 s (r # rs) =
    (if take sizeof_MAGIC_WORD (buffer (s1 r)) = MAGIC_WORD
     then ([Sys_recvfrom] @ perror_if (fst (R r) < 0) ''recvfrom'', Next (s1 r))
     else ([Sys_recvfrom] @ perror_if (fst (R r) < 0) ''recvfrom''
           @ [Stdout ''Bad magic word from %s:%i\<newline>''] @ fst (wait_magic_v1 (s1 r) rs),
           snd (wait_magic_v1 (s1 r) rs)))"
proof -
  from assms(1) sizeof_MAGIC_WORD_le
  have "sizeof_MAGIC_WORD \<le> length (fst (snd (R r)))"
    by (simp add: R_def)
  from strncmp_MAGIC_WORD [OF this] obtain c where
    "strncmp MAGIC_WORD (fst (snd (R r))) sizeof_MAGIC_WORD = Some c"
    "c = 0 \<longleftrightarrow> take sizeof_MAGIC_WORD (fst (snd (R r))) = MAGIC_WORD"
    by blast
  then show ?thesis
    by (simp add: R_def s1_def split_beta)
qed

lemma destinations_wait_magic_v1 [simp]: "destinations (fst (wait_magic_v1 s rs)) = []"
  by (induction rs arbitrary: s) (simp_all add: split_beta split: option.splits)

text \<open>
  Who becomes the peer: when the wait starts on a buffer that does not hold the magic
  word and ends, it ends on a datagram of the script (the calls of \<open>recvfrom\<close> are
  those up to it), after which the buffer holds the magic word, and \<open>client_addr\<close> is
  the source of that datagram.
\<close>

lemma wait_magic_v1_peer:
  "length (buffer s) = BUFSIZE \<Longrightarrow> take sizeof_MAGIC_WORD (buffer s) \<noteq> MAGIC_WORD \<Longrightarrow>
   snd (wait_magic_v1 s rs) = Next s' \<Longrightarrow>
   \<exists>rs1 b d rs2. rs = rs1 @ Datagram b d # rs2 \<and> client_addr s' = b \<and>
     cliserv s' = cliserv s \<and> take sizeof_MAGIC_WORD (buffer s') = MAGIC_WORD \<and>
     recvs (fst (wait_magic_v1 s rs)) = Suc (length rs1)"
proof (induction rs arbitrary: s)
  case Nil
  then show ?case by simp
next
  case (Cons r rs)
  define s1 where
    "s1 = s\<lparr>buffer := fst (snd (sys_recvfrom r (buffer s) BUFSIZE (client_addr s))),
            client_addr := snd (snd (sys_recvfrom r (buffer s) BUFSIZE (client_addr s)))\<rparr>"
  have len: "length (buffer s1) = BUFSIZE" and cs: "cliserv s1 = cliserv s"
    using Cons.prems(1) by (simp_all add: s1_def)
  note step = wait_magic_v1_Cons [OF Cons.prems(1), of r rs, folded s1_def]
  show ?case
  proof (cases "take sizeof_MAGIC_WORD (buffer s1) = MAGIC_WORD")
    case True
    with step Cons.prems(3) have s': "s' = s1"
      by simp
    from True Cons.prems(2) obtain b d where r: "r = Datagram b d"
      by (cases r) (auto simp: s1_def)
    then have "client_addr s1 = b"
      by (simp add: s1_def)
    moreover from step True have "recvs (fst (wait_magic_v1 s (r # rs))) = Suc (length ([] :: recv_res list))"
      by simp
    ultimately have "r # rs = [] @ Datagram b d # rs \<and> client_addr s' = b \<and>
        cliserv s' = cliserv s \<and> take sizeof_MAGIC_WORD (buffer s') = MAGIC_WORD \<and>
        recvs (fst (wait_magic_v1 s (r # rs))) = Suc (length ([] :: recv_res list))"
      using True s' cs r by simp
    then show ?thesis by blast
  next
    case False
    with step Cons.prems(3) have "snd (wait_magic_v1 s1 rs) = Next s'"
      by simp
    from Cons.IH [OF len False this] obtain rs1 b d rs2 where
      "rs = rs1 @ Datagram b d # rs2" "client_addr s' = b" "cliserv s' = cliserv s1"
      "take sizeof_MAGIC_WORD (buffer s') = MAGIC_WORD"
      "recvs (fst (wait_magic_v1 s1 rs)) = Suc (length rs1)"
      by blast
    moreover from step False
    have "recvs (fst (wait_magic_v1 s (r # rs))) = Suc (recvs (fst (wait_magic_v1 s1 rs)))"
      by simp
    ultimately have "r # rs = (r # rs1) @ Datagram b d # rs2 \<and> client_addr s' = b \<and>
        cliserv s' = cliserv s \<and> take sizeof_MAGIC_WORD (buffer s') = MAGIC_WORD \<and>
        recvs (fst (wait_magic_v1 s (r # rs))) = Suc (length (r # rs1))"
      using cs by simp
    then show ?thesis by blast
  qed
qed

lemma server_v1_Next:
  assumes "\<not> setsockopt_ret e < 0" and "\<not> bind_ret e < 0"
    and "server_v1 e s = (ev, Next s')"
  shows "snd (wait_magic_v1
                (s\<lparr>server_addr := \<lparr>sin_addr = INADDR_ANY, sin_port = PORT_v1\<rparr>,
                   client_addr := \<lparr>sin_addr = 0, sin_port = 0\<rparr>\<rparr>) (hs_recv e)) = Next s' \<and>
         destinations ev = [client_addr s'] \<and>
         recvs ev =
           recvs (fst (wait_magic_v1
                (s\<lparr>server_addr := \<lparr>sin_addr = INADDR_ANY, sin_port = PORT_v1\<rparr>,
                   client_addr := \<lparr>sin_addr = 0, sin_port = 0\<rparr>\<rparr>) (hs_recv e)))"
proof -
  define w where
    "w = wait_magic_v1
           (s\<lparr>server_addr := \<lparr>sin_addr = INADDR_ANY, sin_port = PORT_v1\<rparr>,
              client_addr := \<lparr>sin_addr = 0, sin_port = 0\<rparr>\<rparr>) (hs_recv e)"
  have d: "destinations (fst w) = []"
    by (simp add: w_def)
  from assms have "seq ([Sys_setsockopt, Sys_bind \<lparr>sin_addr = INADDR_ANY, sin_port = PORT_v1\<rparr>],
        Next ()) (\<lambda>u. seq w
          (\<lambda>s3. ([Sys_sendto (client_addr s3) (take sizeof_MAGIC_WORD MAGIC_WORD)]
                  @ perror_if (hs_sendto_ret e < 0) ''sendto''
                  @ do_debug s3 ''SERVER: Client connected from %s\<newline>'', Next s3)))
      = (ev, Next s')"
    by (simp add: server_v1_def Let_def w_def del: wait_magic_v1.simps)
  with d have "snd w = Next s' \<and> destinations ev = [client_addr s'] \<and> recvs ev = recvs (fst w)"
    by (cases w; cases "snd w") (auto simp: do_debug_def)
  then show ?thesis
    by (simp add: w_def)
qed

section \<open>Evaluating whole runs\<close>

lemmas v1_defs = main_v1_def init_v1_def check_args_v1_def open_tun_v1_def tun_alloc_def
  open_socket_def server_v1_def client_v1_def inet_aton_into_def do_debug_def
  usage_v1_def my_err_usage_v1_def

lemmas v2_defs = main_v2_def init_v2_def check_args_v2_def open_tun_v2_def tun_alloc_def
  open_socket_def server_v2_def client_v2_def inet_aton_into_def usage_v2_def
  perror_usage_v2_def

section \<open>The claims about the relay loop\<close>

text \<open>
  C7. When \<open>select\<close> fails with \<open>EINTR\<close> the turn does nothing but the call of
  \<open>select\<close>: the state is the one before, no data is moved, and the loop goes on with
  the next turn from that state. When \<open>select\<close> fails with any other \<open>errno\<close>, the
  process reports \<open>select()\<close> and ends with \<open>exit(1)\<close>, whatever the script holds
  after it. In both programs.
\<close>

theorem select_failure:
  "select_ret t < 0 \<Longrightarrow>
   relay_turn_v1 s1 t =
     (if select_errno t = EINTR then ([Sys_select], Next s1)
      else ([Sys_select, Perror ''select()''], Exit 1)) \<and>
   relay_loop_v1 s1 (t # ts) =
     (if select_errno t = EINTR
      then (Sys_select # fst (relay_loop_v1 s1 ts), snd (relay_loop_v1 s1 ts))
      else ([Sys_select, Perror ''select()''], Exit 1)) \<and>
   relay_turn_v2 s2 t =
     (if select_errno t = EINTR then ([Sys_select], Next s2)
      else ([Sys_select, Perror ''select()''], Exit 1)) \<and>
   relay_loop_v2 s2 (t # ts) =
     (if select_errno t = EINTR
      then (Sys_select # fst (relay_loop_v2 s2 ts), snd (relay_loop_v2 s2 ts))
      else ([Sys_select, Perror ''select()''], Exit 1))"
  by (simp add: relay_turn_v1_def relay_turn_v2_def)

theorem select_failure_witness:
  "select_ret ex_turn_eintr < 0 \<and> select_ret ex_turn_ebadf < 0 \<and>
   relay_turn_v1 ex_state_v1 ex_turn_eintr = ([Sys_select], Next ex_state_v1) \<and>
   relay_turn_v2 ex_state_v2 ex_turn_eintr = ([Sys_select], Next ex_state_v2) \<and>
   relay_loop_v1 ex_state_v1 [ex_turn_ebadf, ex_turn_both] =
     ([Sys_select, Perror ''select()''], Exit 1) \<and>
   relay_loop_v2 ex_state_v2 [ex_turn_ebadf, ex_turn_both] =
     ([Sys_select, Perror ''select()''], Exit 1)"
  using select_failure [of ex_turn_eintr ex_state_v1 "[]" ex_state_v2]
    select_failure [of ex_turn_ebadf ex_state_v1 "[ex_turn_both]" ex_state_v2]
  by (simp add: ex_turn_eintr_def ex_turn_ebadf_def EINTR_def)

text \<open>
  C6. In a turn in which \<open>select\<close> does not fail, whatever \<open>read\<close>, \<open>sendto\<close>,
  \<open>recvfrom\<close> and \<open>write\<close> return, the turn ends in a next state and the loop goes on
  from it with the next turn; and each of the four calls, when it is made and fails,
  is followed by its \<open>perror\<close>. In both programs.
\<close>

theorem io_failure_not_fatal:
  "\<not> select_ret t < 0 \<Longrightarrow>
   (\<exists>s'. snd (relay_turn_v1 s1 t) = Next s' \<and>
      relay_loop_v1 s1 (t # ts) =
        (fst (relay_turn_v1 s1 t) @ fst (relay_loop_v1 s' ts), snd (relay_loop_v1 s' ts))) \<and>
   (\<exists>s'. snd (relay_turn_v2 s2 t) = Next s' \<and>
      relay_loop_v2 s2 (t # ts) =
        (fst (relay_turn_v2 s2 t) @ fst (relay_loop_v2 s' ts), snd (relay_loop_v2 s' ts))) \<and>
   (tap_isset t \<and> read_result t = Read_failed \<longrightarrow>
      Perror ''read'' \<in> set (fst (relay_turn_v1 s1 t)) \<and>
      Perror ''read from virtual'' \<in> set (fst (relay_turn_v2 s2 t))) \<and>
   (tap_isset t \<and> sendto_ret t < 0 \<longrightarrow>
      Perror ''sendto'' \<in> set (fst (relay_turn_v1 s1 t)) \<and>
      Perror ''sendto network'' \<in> set (fst (relay_turn_v2 s2 t))) \<and>
   (sock_isset t \<and> recv_result t = Recv_failed \<longrightarrow>
      Perror ''read'' \<in> set (fst (relay_turn_v1 s1 t)) \<and>
      Perror ''read from network'' \<in> set (fst (relay_turn_v2 s2 t))) \<and>
   (sock_isset t \<and> write_ret t < 0 \<longrightarrow>
      Perror ''write'' \<in> set (fst (relay_turn_v1 s1 t)) \<and>
      Perror ''write to virtual'' \<in> set (fst (relay_turn_v2 s2 t)))"
  by (auto simp: relay_turn_v1_Next relay_turn_v2_Next seq_Next tap2net_v1_def net2tap_v1_def
      tap2net_v2_def net2tap_v2_def net_recvfrom_v2_def net_assign_v2_def net_write_v2_def
      split_beta)

theorem io_failure_not_fatal_witness:
  "\<not> select_ret ex_turn_fail < 0 \<and>
   (\<exists>s'. snd (relay_turn_v1 ex_state_v1 ex_turn_fail) = Next s') \<and>
   (\<exists>s'. snd (relay_turn_v2 ex_state_v2 ex_turn_fail) = Next s') \<and>
   Perror ''read'' \<in> set (fst (relay_turn_v1 ex_state_v1 ex_turn_fail)) \<and>
   Perror ''sendto'' \<in> set (fst (relay_turn_v1 ex_state_v1 ex_turn_fail)) \<and>
   Perror ''write'' \<in> set (fst (relay_turn_v1 ex_state_v1 ex_turn_fail)) \<and>
   Perror ''read from virtual'' \<in> set (fst (relay_turn_v2 ex_state_v2 ex_turn_fail)) \<and>
   Perror ''sendto network'' \<in> set (fst (relay_turn_v2 ex_state_v2 ex_turn_fail)) \<and>
   Perror ''read from network'' \<in> set (fst (relay_turn_v2 ex_state_v2 ex_turn_fail)) \<and>
   Perror ''write to virtual'' \<in> set (fst (relay_turn_v2 ex_state_v2 ex_turn_fail))"
proof -
  have h: "\<not> select_ret ex_turn_fail < 0"
    and f: "tap_isset ex_turn_fail" "read_result ex_turn_fail = Read_failed"
      "sendto_ret ex_turn_fail < 0" "sock_isset ex_turn_fail"
      "recv_result ex_turn_fail = Recv_failed" "write_ret ex_turn_fail < 0"
    by (simp_all add: ex_turn_fail_def)
  from io_failure_not_fatal [OF h, of ex_state_v1 "[]" ex_state_v2] h f show ?thesis
    by blast
qed

text \<open>
  C8, as the code has it. The two tests \<open>FD_ISSET(tap_fd, ...)\<close> and
  \<open>FD_ISSET(sock_fd, ...)\<close> are two \<open>if\<close> statements in a row, not alternatives: a
  turn in which \<open>select\<close> does not fail takes one buffer from each source that is
  ready and from no other, so one, two or none. The calls that move data are, in this
  order: when the device is ready \<open>read\<close> and then \<open>sendto\<close>, with the buffer as the
  \<open>read\<close> left it; then, when the socket is ready, \<open>recvfrom\<close> and then \<open>write\<close>,
  with the buffer as the \<open>recvfrom\<close> left it. In both programs.
\<close>

theorem one_buffer_per_ready_source:
  "\<not> select_ret t < 0 \<Longrightarrow>
   io_calls (fst (relay_turn_v1 s1 t)) =
     (if tap_isset t then [Call_read, Call_sendto] else [])
     @ (if sock_isset t then [Call_recvfrom, Call_write] else []) \<and>
   io_calls (fst (relay_turn_v2 s2 t)) =
     (if tap_isset t then [Call_read, Call_sendto] else [])
     @ (if sock_isset t then [Call_recvfrom, Call_write] else []) \<and>
   transfers (fst (relay_turn_v1 s1 t)) =
     (if tap_isset t then [take BUFSIZE (after_read t (buffer s1))] else [])
     @ (if sock_isset t
        then [take BUFSIZE
                (after_recv t (if tap_isset t then after_read t (buffer s1) else buffer s1))]
        else []) \<and>
   transfers (fst (relay_turn_v2 s2 t)) =
     (if tap_isset t then [take BUFSIZE (after_read t (buffer s2))] else [])
     @ (if sock_isset t
        then [take BUFSIZE
                (after_recv t (if tap_isset t then after_read t (buffer s2) else buffer s2))]
        else []) \<and>
   reads (fst (relay_turn_v1 s1 t)) = (if tap_isset t then 1 else 0) \<and>
   sends (fst (relay_turn_v1 s1 t)) = (if tap_isset t then 1 else 0) \<and>
   recvs (fst (relay_turn_v1 s1 t)) = (if sock_isset t then 1 else 0) \<and>
   writes (fst (relay_turn_v1 s1 t)) = (if sock_isset t then 1 else 0) \<and>
   reads (fst (relay_turn_v2 s2 t)) = (if tap_isset t then 1 else 0) \<and>
   sends (fst (relay_turn_v2 s2 t)) = (if tap_isset t then 1 else 0) \<and>
   recvs (fst (relay_turn_v2 s2 t)) = (if sock_isset t then 1 else 0) \<and>
   writes (fst (relay_turn_v2 s2 t)) = (if sock_isset t then 1 else 0) \<and>
   map is_sendto (filter (\<lambda>e. is_sendto e \<or> is_write e) (fst (relay_turn_v1 s1 t))) =
     (if tap_isset t then [True] else []) @ (if sock_isset t then [False] else []) \<and>
   map is_sendto (filter (\<lambda>e. is_sendto e \<or> is_write e) (fst (relay_turn_v2 s2 t))) =
     (if tap_isset t then [True] else []) @ (if sock_isset t then [False] else [])"
proof -
  assume ok: "\<not> select_ret t < 0"
  have calls1: "io_calls (fst (relay_turn_v1 s1 t)) =
     (if tap_isset t then [Call_read, Call_sendto] else [])
     @ (if sock_isset t then [Call_recvfrom, Call_write] else [])"
    using ok by (simp add: relay_turn_v1_Next tap2net_v1_def net2tap_v1_def split_beta)
  have calls2: "io_calls (fst (relay_turn_v2 s2 t)) =
     (if tap_isset t then [Call_read, Call_sendto] else [])
     @ (if sock_isset t then [Call_recvfrom, Call_write] else [])"
    using ok
    by (simp add: relay_turn_v2_Next tap2net_v2_def net2tap_v2_def net_recvfrom_v2_def
        net_assign_v2_def net_write_v2_def split_beta)
  have moved1: "transfers (fst (relay_turn_v1 s1 t)) =
     (if tap_isset t then [take BUFSIZE (after_read t (buffer s1))] else [])
     @ (if sock_isset t
        then [take BUFSIZE
                (after_recv t (if tap_isset t then after_read t (buffer s1) else buffer s1))]
        else [])"
    using ok
    by (simp add: relay_turn_v1_Next tap2net_v1_def net2tap_v1_def split_beta
        buffer_after_read buffer_after_recv)
  have moved2: "transfers (fst (relay_turn_v2 s2 t)) =
     (if tap_isset t then [take BUFSIZE (after_read t (buffer s2))] else [])
     @ (if sock_isset t
        then [take BUFSIZE
                (after_recv t (if tap_isset t then after_read t (buffer s2) else buffer s2))]
        else [])"
    using ok
    by (simp add: relay_turn_v2_Next tap2net_v2_def net2tap_v2_def net_recvfrom_v2_def
        net_assign_v2_def net_write_v2_def split_beta buffer_after_read buffer_after_recv)
  have counts: "reads (fst (relay_turn_v1 s1 t)) = (if tap_isset t then 1 else 0) \<and>
   sends (fst (relay_turn_v1 s1 t)) = (if tap_isset t then 1 else 0) \<and>
   recvs (fst (relay_turn_v1 s1 t)) = (if sock_isset t then 1 else 0) \<and>
   writes (fst (relay_turn_v1 s1 t)) = (if sock_isset t then 1 else 0) \<and>
   reads (fst (relay_turn_v2 s2 t)) = (if tap_isset t then 1 else 0) \<and>
   sends (fst (relay_turn_v2 s2 t)) = (if tap_isset t then 1 else 0) \<and>
   recvs (fst (relay_turn_v2 s2 t)) = (if sock_isset t then 1 else 0) \<and>
   writes (fst (relay_turn_v2 s2 t)) = (if sock_isset t then 1 else 0) \<and>
   map is_sendto (filter (\<lambda>e. is_sendto e \<or> is_write e) (fst (relay_turn_v1 s1 t))) =
     (if tap_isset t then [True] else []) @ (if sock_isset t then [False] else []) \<and>
   map is_sendto (filter (\<lambda>e. is_sendto e \<or> is_write e) (fst (relay_turn_v2 s2 t))) =
     (if tap_isset t then [True] else []) @ (if sock_isset t then [False] else [])"
    using ok
    by (simp add: relay_turn_v1_Next relay_turn_v2_Next tap2net_v1_def net2tap_v1_def
        tap2net_v2_def net2tap_v2_def net_recvfrom_v2_def net_assign_v2_def net_write_v2_def
        split_beta perror_if_def)
  from calls1 calls2 moved1 moved2 counts show ?thesis
    by (intro conjI) simp_all
qed

theorem one_buffer_per_ready_source_witness:
  "\<not> select_ret ex_turn_tap < 0 \<and>
   io_calls (fst (relay_turn_v1 ex_state_v1 ex_turn_tap)) = [Call_read, Call_sendto] \<and>
   io_calls (fst (relay_turn_v2 ex_state_v2 ex_turn_tap)) = [Call_read, Call_sendto] \<and>
   reads (fst (relay_turn_v1 ex_state_v1 ex_turn_tap)) = 1 \<and>
   sends (fst (relay_turn_v1 ex_state_v1 ex_turn_tap)) = 1 \<and>
   recvs (fst (relay_turn_v1 ex_state_v1 ex_turn_tap)) = 0 \<and>
   writes (fst (relay_turn_v1 ex_state_v1 ex_turn_tap)) = 0 \<and>
   reads (fst (relay_turn_v2 ex_state_v2 ex_turn_tap)) = 1 \<and>
   sends (fst (relay_turn_v2 ex_state_v2 ex_turn_tap)) = 1 \<and>
   recvs (fst (relay_turn_v2 ex_state_v2 ex_turn_tap)) = 0 \<and>
   writes (fst (relay_turn_v2 ex_state_v2 ex_turn_tap)) = 0"
proof -
  have h: "\<not> select_ret ex_turn_tap < 0"
    and r: "tap_isset ex_turn_tap" "\<not> sock_isset ex_turn_tap"
    by (simp_all add: ex_turn_tap_def)
  from one_buffer_per_ready_source [OF h, of ex_state_v1 ex_state_v2] h r show ?thesis
    by simp
qed

text \<open>
  C8 as the claim states it fails: when \<open>select\<close> reports both descriptors ready, one
  turn reads a frame and sends it, and receives a datagram and writes it.
\<close>

theorem both_sources_drained_in_one_turn:
  "tap_isset ex_turn_both \<and> sock_isset ex_turn_both \<and>
   fst (relay_turn_v2 ex_state_v2 ex_turn_both) =
     [Sys_select,
      Sys_read, Perror ''read from virtual'',
      Sys_sendto ex_P (''frame'' @ replicate (BUFSIZE - 5) (CHR 0x00)),
      Stdout ''Get packet from virtual -> real NIC %d\<newline>'',
      Sys_recvfrom, Perror ''read from network'',
      Sys_write (''ping'' @ CHR ''e'' # replicate (BUFSIZE - 5) (CHR 0x00)),
      Stdout ''Get packet from real -> virtual NIC %d\<newline>''] \<and>
   fst (relay_turn_v1 ex_state_v1 ex_turn_both) =
     [Sys_select,
      Sys_read, Perror ''read'',
      Sys_sendto ex_P (''frame'' @ replicate (BUFSIZE - 5) (CHR 0x00)),
      Sys_recvfrom, Perror ''read'',
      Stdout ''Get packet in UDP tunnel\<newline>'',
      Sys_write (''ping'' @ CHR ''e'' # replicate (BUFSIZE - 5) (CHR 0x00))]"
  by (simp add: relay_defs ex_turn_both_def ex_state_v1_def ex_state_v2_def store_def
      BUFSIZE_def SERVER_def CLIENT_def)

text \<open>
  C2. \<open>buffer\<close> is an array of \<open>BUFSIZE\<close> = 4096 bytes. Whatever the script of the
  environment, so whatever number of bytes each \<open>read\<close> and \<open>recvfrom\<close> returned,
  every buffer that the relay loop hands to \<open>sendto\<close> and every buffer that it hands
  to \<open>write\<close> is 4096 bytes long. In both programs.
\<close>

theorem relay_moves_whole_buffer:
  "length (buffer s1) = BUFSIZE \<Longrightarrow> length (buffer s2) = BUFSIZE \<Longrightarrow>
   list_all (\<lambda>d. length d = 4096) (transfers (fst (relay_loop_v1 s1 ts))) \<and>
   list_all (\<lambda>d. length d = 4096) (transfers (fst (relay_loop_v2 s2 ts)))"
  using relay_loop_v1_transfers [of s1 ts] relay_loop_v2_transfers [of s2 ts]
  by (simp add: BUFSIZE_def)

theorem relay_moves_whole_buffer_witness:
  "length (buffer ex_state_v1) = BUFSIZE \<and> length (buffer ex_state_v2) = BUFSIZE \<and>
   list_all (\<lambda>d. length d = 4096)
     (transfers (fst (relay_loop_v1 ex_state_v1 [ex_turn_both, ex_turn_tap]))) \<and>
   list_all (\<lambda>d. length d = 4096)
     (transfers (fst (relay_loop_v2 ex_state_v2 [ex_turn_both, ex_turn_tap]))) \<and>
   length (transfers (fst (relay_loop_v1 ex_state_v1 [ex_turn_both, ex_turn_tap]))) = 3 \<and>
   length (transfers (fst (relay_loop_v2 ex_state_v2 [ex_turn_both, ex_turn_tap]))) = 3"
proof -
  have h: "length (buffer ex_state_v1) = BUFSIZE" "length (buffer ex_state_v2) = BUFSIZE"
    by (simp_all add: ex_state_v1_def ex_state_v2_def)
  have n1: "length (transfers (fst (relay_loop_v1 ex_state_v1 [ex_turn_both, ex_turn_tap]))) = 3"
    by (simp add: relay_turn_v1_Next tap2net_v1_def net2tap_v1_def split_beta
        ex_turn_both_def ex_turn_tap_def)
  have n2: "length (transfers (fst (relay_loop_v2 ex_state_v2 [ex_turn_both, ex_turn_tap]))) = 3"
    by (simp add: relay_turn_v2_Next tap2net_v2_def net2tap_v2_def net_recvfrom_v2_def
        net_assign_v2_def net_write_v2_def split_beta ex_turn_both_def ex_turn_tap_def)
  from relay_moves_whole_buffer [OF h, of "[ex_turn_both, ex_turn_tap]"] h n1 n2
  show ?thesis by simp
qed

text \<open>
  C1. tunneludp_v2.c, a turn in which \<open>select\<close> does not fail, the socket is ready and
  \<open>recvfrom\<close> delivers a datagram from \<open>Q\<close>, in a state whose \<open>remote_addr\<close> is
  \<open>P\<close>, with \<open>Q \<noteq> P\<close>, whatever the payload: the assignment
  \<open>remote_addr = read_addr\<close> stands between the \<open>recvfrom\<close> and the \<open>write\<close>, so the
  \<open>write\<close> runs in a state whose \<open>remote_addr\<close> is \<open>Q\<close>; the turn ends in a state
  whose \<open>remote_addr\<close> is \<open>Q\<close>; and after any number of turns in which nothing is
  ready, the next turn in which the device is ready sends its one datagram to \<open>Q\<close>,
  not to \<open>P\<close>.
\<close>

theorem last_sender_wins_v2:
  assumes "\<not> select_ret t < 0" and "sock_isset t" and "recv_result t = Datagram Q d"
    and "remote_addr s = P" and "Q \<noteq> P"
    and "list_all idle qs"
    and "\<not> select_ret t' < 0" and "tap_isset t'"
  shows "\<exists>s'. snd (relay_turn_v2 s t) = Next s' \<and> remote_addr s' = Q \<and>
           destinations (fst (relay_loop_v2 s' (qs @ [t']))) = [Q] \<and>
           P \<notin> set (destinations (fst (relay_loop_v2 s' (qs @ [t'])))) \<and>
           destinations (fst (relay_loop_v2 s (t # qs @ [t']))) =
             (if tap_isset t then [P, Q] else [Q]) \<and>
           (\<forall>s0. remote_addr (net_assign_v2 (snd (net_recvfrom_v2 s0 t))) = Q \<and>
              net2tap_v2 s0 t =
                (fst (net_recvfrom_v2 s0 t)
                 @ fst (net_write_v2 (net_assign_v2 (snd (net_recvfrom_v2 s0 t))) t),
                 snd (net_write_v2 (net_assign_v2 (snd (net_recvfrom_v2 s0 t))) t)))"
proof -
  have w: "remote_addr (net_assign_v2 (snd (net_recvfrom_v2 s0 t))) = Q \<and>
      net2tap_v2 s0 t =
        (fst (net_recvfrom_v2 s0 t)
         @ fst (net_write_v2 (net_assign_v2 (snd (net_recvfrom_v2 s0 t))) t),
         snd (net_write_v2 (net_assign_v2 (snd (net_recvfrom_v2 s0 t))) t))" for s0
    using assms(3) by (simp add: net2tap_v2_def net_recvfrom_v2_def net_assign_v2_def split_beta)
  define s' where "s' = net2tap_v2 (if tap_isset t then snd (tap2net_v2 s t) else s) t"
  from assms have a: "snd (relay_turn_v2 s t) = Next (snd s')"
    by (simp add: relay_turn_v2_Next s'_def)
  from assms have b: "remote_addr (snd s') = Q"
    by (simp add: s'_def net2tap_v2_facts)
  from assms b have c: "destinations (fst (relay_loop_v2 (snd s') (qs @ [t']))) = [Q]"
    by (simp add: relay_loop_v2_idle relay_turn_v2_Next tap2net_v2_facts net2tap_v2_facts)
  from assms have "destinations (fst (relay_turn_v2 s t)) = (if tap_isset t then [P] else [])"
    by (simp add: relay_turn_v2_Next tap2net_v2_facts net2tap_v2_facts)
  with a c have e: "destinations (fst (relay_loop_v2 s (t # qs @ [t']))) =
      (if tap_isset t then [P, Q] else [Q])"
    by (simp add: seq_Next)
  from a b c e w assms(5) show ?thesis
    by (intro exI [of _ "snd s'"]) simp
qed

theorem last_sender_wins_v2_witness:
  "\<not> select_ret ex_turn_net < 0 \<and> sock_isset ex_turn_net \<and>
   recv_result ex_turn_net = Datagram ex_Q ''ping'' \<and>
   remote_addr ex_state_v2 = ex_P \<and> ex_Q \<noteq> ex_P \<and>
   list_all idle [ex_turn_eintr] \<and>
   \<not> select_ret ex_turn_tap < 0 \<and> tap_isset ex_turn_tap \<and>
   (\<exists>s'. snd (relay_turn_v2 ex_state_v2 ex_turn_net) = Next s' \<and> remote_addr s' = ex_Q \<and>
      destinations (fst (relay_loop_v2 s' [ex_turn_eintr, ex_turn_tap])) = [ex_Q]) \<and>
   destinations (fst (relay_loop_v2 ex_state_v2 [ex_turn_net, ex_turn_eintr, ex_turn_tap]))
     = [ex_Q]"
proof -
  have h: "\<not> select_ret ex_turn_net < 0" "sock_isset ex_turn_net"
    "recv_result ex_turn_net = Datagram ex_Q ''ping''"
    "remote_addr ex_state_v2 = ex_P" "ex_Q \<noteq> ex_P"
    "list_all idle [ex_turn_eintr]"
    "\<not> select_ret ex_turn_tap < 0" "tap_isset ex_turn_tap"
    by (simp_all add: ex_turn_net_def ex_turn_tap_def ex_turn_eintr_def idle_def
        ex_state_v2_def ex_P_def ex_Q_def)
  have n: "\<not> tap_isset ex_turn_net"
    by (simp add: ex_turn_net_def)
  from last_sender_wins_v2 [OF h] obtain s' where
    "snd (relay_turn_v2 ex_state_v2 ex_turn_net) = Next s'" "remote_addr s' = ex_Q"
    "destinations (fst (relay_loop_v2 s' ([ex_turn_eintr] @ [ex_turn_tap]))) = [ex_Q]"
    "destinations (fst (relay_loop_v2 ex_state_v2 (ex_turn_net # [ex_turn_eintr] @ [ex_turn_tap]))) =
       (if tap_isset ex_turn_net then [ex_P, ex_Q] else [ex_Q])"
    by blast
  with h n show ?thesis
    by (auto simp del: relay_loop_v2.simps)
qed

text \<open>
  C9, as the code has it. In tunneludp_v1.c the \<open>recvfrom\<close> of the relay loop stores
  the source of the datagram in the variable that \<open>sendto\<close> reads (\<open>server_addr\<close> in
  the client, \<open>client_addr\<close> in the server). So a turn in which \<open>select\<close> does not
  fail, the socket is ready and \<open>recvfrom\<close> delivers a datagram from \<open>Q\<close> ends in a
  state that sends to \<open>Q\<close>, and after any number of turns in which nothing is ready
  the next turn in which the device is ready sends its one datagram to \<open>Q\<close>; a turn
  that delivers no datagram (the socket is not ready, or \<open>recvfrom\<close> fails) leaves the
  destination as it was.
\<close>

theorem last_sender_wins_v1:
  assumes "\<not> select_ret t < 0" and "list_all idle qs"
    and "\<not> select_ret t' < 0" and "tap_isset t'"
  shows "\<exists>s'. snd (relay_turn_v1 s t) = Next s' \<and>
           destinations (fst (relay_loop_v1 s' (qs @ [t']))) = [peer_v1 s'] \<and>
           (sock_isset t \<and> recv_result t = Datagram Q d \<longrightarrow> peer_v1 s' = Q) \<and>
           (\<not> sock_isset t \<or> recv_result t = Recv_failed \<longrightarrow> peer_v1 s' = peer_v1 s)"
  using assms
  by (auto simp: relay_loop_v1_idle relay_turn_v1_Next tap2net_v1_facts net2tap_v1_facts)

theorem last_sender_wins_v1_witness:
  "\<not> select_ret ex_turn_net < 0 \<and> list_all idle [ex_turn_eintr] \<and>
   \<not> select_ret ex_turn_tap < 0 \<and> tap_isset ex_turn_tap \<and>
   sock_isset ex_turn_net \<and> recv_result ex_turn_net = Datagram ex_Q ''ping'' \<and>
   \<not> sock_isset ex_turn_tap \<and>
   (\<exists>s'. snd (relay_turn_v1 ex_state_v1 ex_turn_net) = Next s' \<and> peer_v1 s' = ex_Q \<and>
      destinations (fst (relay_loop_v1 s' [ex_turn_eintr, ex_turn_tap])) = [ex_Q]) \<and>
   (\<exists>s'. snd (relay_turn_v1 ex_state_v1 ex_turn_tap) = Next s' \<and>
      peer_v1 s' = peer_v1 ex_state_v1)"
proof -
  have h: "\<not> select_ret ex_turn_net < 0" "list_all idle [ex_turn_eintr]"
    "\<not> select_ret ex_turn_tap < 0" "tap_isset ex_turn_tap"
    and r: "sock_isset ex_turn_net" "recv_result ex_turn_net = Datagram ex_Q ''ping''"
      "\<not> sock_isset ex_turn_tap"
    by (simp_all add: ex_turn_net_def ex_turn_tap_def ex_turn_eintr_def idle_def)
  from last_sender_wins_v1 [OF h, of ex_state_v1 ex_Q "''ping''"] r
  have a: "\<exists>s'. snd (relay_turn_v1 ex_state_v1 ex_turn_net) = Next s' \<and> peer_v1 s' = ex_Q \<and>
      destinations (fst (relay_loop_v1 s' [ex_turn_eintr, ex_turn_tap])) = [ex_Q]"
    by (auto simp del: relay_loop_v1.simps)
  from last_sender_wins_v1 [OF h(3) h(2) h(3) h(4), of ex_state_v1 ex_Q "''ping''"] r
  have b: "\<exists>s'. snd (relay_turn_v1 ex_state_v1 ex_turn_tap) = Next s' \<and>
      peer_v1 s' = peer_v1 ex_state_v1"
    by auto
  from h r a b show ?thesis by blast
qed

text \<open>
  C9 as the claim states it fails: a server of tunneludp_v1.c whose handshake was with
  \<open>ex_P\<close> receives a datagram from \<open>ex_Q\<close> in the relay loop and sends the next frame
  of the device to \<open>ex_Q\<close>.
\<close>

theorem v1_destination_follows_sender:
  "ex_Q \<noteq> ex_P \<and>
   destinations (fst (main_v1 ex_server_relay)) = [ex_P, ex_Q] \<and>
   (\<exists>s. snd (main_v1 ex_server_relay) = Next s \<and> peer_v1 s = ex_Q)"
  by (simp add: v1_defs relay_defs ex_server_relay_def ex_server_def ex_P_def ex_Q_def
      ex_turn_net_def ex_turn_tap_def const_defs Let_def store_def peer_v1_def)

section \<open>The claims about the setup and the handshake\<close>

text \<open>
  C3, as the code has it. A server holds a buffer of \<open>BUFSIZE\<close> bytes and receives a
  datagram after which the first \<open>sizeof(MAGIC_WORD)\<close> = 21 bytes of the buffer are
  not the magic word with its NUL. tunneludp_v1.c prints \<open>Bad magic word from\<close>, does
  not end and goes on waiting: the handshake is what the rest of the datagrams make of
  it, and with no further datagram the process is blocked in \<open>recvfrom\<close>. It does not
  take the sender as its peer: when the wait ends, it ends on a later datagram (the last
  one that \<open>recvfrom\<close> was called for), after which the buffer holds the magic word,
  and the source of that datagram is the peer, to which alone the server sends the
  magic word.
  tunneludp_v2.c reports \<open>Bad magic word for peer\<close> and ends with \<open>exit(1)\<close>: it
  sends no reply and does not reach the relay loop.
\<close>

theorem bad_magic_word_at_server:
  assumes "length (buffer s1) = BUFSIZE" and "length (buffer s2) = BUFSIZE"
    and "take sizeof_MAGIC_WORD (store (buffer s1) (take BUFSIZE d)) \<noteq> MAGIC_WORD"
    and "take sizeof_MAGIC_WORD (store (buffer s2) (take BUFSIZE d)) \<noteq> MAGIC_WORD"
    and "hs_recv e = Datagram a d # rs"
    and "\<not> setsockopt_ret e < 0" and "\<not> bind_ret e < 0"
  shows "wait_magic_v1 s1 (Datagram a d # rs) =
           ([Sys_recvfrom, Stdout ''Bad magic word from %s:%i\<newline>'']
            @ fst (wait_magic_v1
                    (s1\<lparr>buffer := store (buffer s1) (take BUFSIZE d), client_addr := a\<rparr>) rs),
            snd (wait_magic_v1
                    (s1\<lparr>buffer := store (buffer s1) (take BUFSIZE d), client_addr := a\<rparr>) rs)) \<and>
         wait_magic_v1 s1 [Datagram a d] =
           ([Sys_recvfrom, Stdout ''Bad magic word from %s:%i\<newline>'', Sys_recvfrom], Wait) \<and>
         (\<forall>s'. snd (wait_magic_v1 s1 (Datagram a d # rs)) = Next s' \<longrightarrow>
            (\<exists>rs1 b d' rs2. rs = rs1 @ Datagram b d' # rs2 \<and> client_addr s' = b \<and>
               take sizeof_MAGIC_WORD (buffer s') = MAGIC_WORD \<and>
               recvs (fst (wait_magic_v1 s1 (Datagram a d # rs))) = length rs1 + 2)) \<and>
         (\<forall>ev s'. cliserv s1 = SERVER \<and> server_v1 e s1 = (ev, Next s') \<longrightarrow>
            (\<exists>rs1 b d' rs2. rs = rs1 @ Datagram b d' # rs2 \<and> peer_v1 s' = b \<and>
               destinations ev = [b] \<and> recvs ev = length rs1 + 2)) \<and>
         server_v2 e s2 =
           ([Sys_setsockopt, Sys_bind \<lparr>sin_addr = INADDR_ANY, sin_port = port s2\<rparr>,
             Sys_recvfrom, Perror ''Bad magic word for peer\<newline>''], Exit 1)"
proof -
  have v1: "wait_magic_v1 s (Datagram a d # rs') =
           ([Sys_recvfrom, Stdout ''Bad magic word from %s:%i\<newline>'']
            @ fst (wait_magic_v1
                    (s\<lparr>buffer := store (buffer s) (take BUFSIZE d), client_addr := a\<rparr>) rs'),
            snd (wait_magic_v1
                    (s\<lparr>buffer := store (buffer s) (take BUFSIZE d), client_addr := a\<rparr>) rs'))"
    if "buffer s = buffer s1" for s rs'
    using wait_magic_v1_Cons [of s "Datagram a d" rs'] assms(1,3) that
    by (simp add: perror_if_def)
  have peer: "\<exists>rs1 b d' rs2. rs = rs1 @ Datagram b d' # rs2 \<and> client_addr s' = b \<and>
      cliserv s' = cliserv s \<and> take sizeof_MAGIC_WORD (buffer s') = MAGIC_WORD \<and>
      recvs (fst (wait_magic_v1 s (Datagram a d # rs))) = length rs1 + 2"
    if "buffer s = buffer s1" and "snd (wait_magic_v1 s (Datagram a d # rs)) = Next s'" for s s'
  proof -
    define s0 where "s0 = s\<lparr>buffer := store (buffer s) (take BUFSIZE d), client_addr := a\<rparr>"
    from that v1 [OF that(1), of rs]
    have w: "snd (wait_magic_v1 s0 rs) = Next s'"
      and n: "recvs (fst (wait_magic_v1 s (Datagram a d # rs))) =
        Suc (recvs (fst (wait_magic_v1 s0 rs)))"
      by (simp_all add: s0_def del: wait_magic_v1.simps)
    have "length (buffer s0) = BUFSIZE" "take sizeof_MAGIC_WORD (buffer s0) \<noteq> MAGIC_WORD"
      "cliserv s0 = cliserv s"
      using assms(1,3) that(1) by (simp_all add: s0_def)
    with wait_magic_v1_peer [OF _ _ w] n show ?thesis
      by auto
  qed
  have srv: "\<exists>rs1 b d' rs2. rs = rs1 @ Datagram b d' # rs2 \<and> peer_v1 s' = b \<and>
      destinations ev = [b] \<and> recvs ev = length rs1 + 2"
    if role: "cliserv s1 = SERVER" and run: "server_v1 e s1 = (ev, Next s')" for ev s'
  proof -
    define s0 where
      "s0 = s1\<lparr>server_addr := \<lparr>sin_addr = INADDR_ANY, sin_port = PORT_v1\<rparr>,
               client_addr := \<lparr>sin_addr = 0, sin_port = 0\<rparr>\<rparr>"
    have b0: "buffer s0 = buffer s1" and c0: "cliserv s0 = SERVER"
      using role by (simp_all add: s0_def)
    from server_v1_Next [OF assms(6,7) run] assms(5)
    have w: "snd (wait_magic_v1 s0 (Datagram a d # rs)) = Next s'"
      and ev: "destinations ev = [client_addr s']"
      and n: "recvs ev = recvs (fst (wait_magic_v1 s0 (Datagram a d # rs)))"
      by (simp_all add: s0_def del: wait_magic_v1.simps)
    from peer [OF b0 w] c0 obtain rs1 b d' rs2 where
      "rs = rs1 @ Datagram b d' # rs2" "client_addr s' = b" "cliserv s' = SERVER"
      "recvs (fst (wait_magic_v1 s0 (Datagram a d # rs))) = length rs1 + 2"
      by auto
    with ev n have "rs = rs1 @ Datagram b d' # rs2 \<and> peer_v1 s' = b \<and> destinations ev = [b] \<and>
        recvs ev = length rs1 + 2"
      by (simp add: peer_v1_def SERVER_def CLIENT_def)
    then show ?thesis by blast
  qed
  from assms(2) sizeof_MAGIC_WORD_le
  have "sizeof_MAGIC_WORD \<le> length (store (buffer s2) (take BUFSIZE d))"
    by simp
  from strncmp_MAGIC_WORD [OF this] assms(4) obtain c2 where
    c2: "strncmp MAGIC_WORD (store (buffer s2) (take BUFSIZE d)) sizeof_MAGIC_WORD = Some c2"
      "c2 \<noteq> 0"
    by auto
  have v2: "server_v2 e s2 =
           ([Sys_setsockopt, Sys_bind \<lparr>sin_addr = INADDR_ANY, sin_port = port s2\<rparr>,
             Sys_recvfrom, Perror ''Bad magic word for peer\<newline>''], Exit 1)"
    using c2 assms(5-7) by (simp add: server_v2_def sys_recvfrom_def perror_if_def)
  have p1: "\<forall>s'. snd (wait_magic_v1 s1 (Datagram a d # rs)) = Next s' \<longrightarrow>
            (\<exists>rs1 b d' rs2. rs = rs1 @ Datagram b d' # rs2 \<and> client_addr s' = b \<and>
               take sizeof_MAGIC_WORD (buffer s') = MAGIC_WORD \<and>
               recvs (fst (wait_magic_v1 s1 (Datagram a d # rs))) = length rs1 + 2)"
    using peer [of s1] by blast
  have p2: "\<forall>ev s'. cliserv s1 = SERVER \<and> server_v1 e s1 = (ev, Next s') \<longrightarrow>
            (\<exists>rs1 b d' rs2. rs = rs1 @ Datagram b d' # rs2 \<and> peer_v1 s' = b \<and>
               destinations ev = [b] \<and> recvs ev = length rs1 + 2)"
    using srv by blast
  have e1: "wait_magic_v1 s1 [Datagram a d] =
           ([Sys_recvfrom, Stdout ''Bad magic word from %s:%i\<newline>'', Sys_recvfrom], Wait)"
    using v1 [of s1 "[]"] by simp
  from v1 [of s1 rs] e1 p1 p2 v2 show ?thesis
    by (intro conjI) (simp_all del: wait_magic_v1.simps)
qed

theorem bad_magic_word_at_server_witness:
  "length (buffer ex_state_v1) = BUFSIZE \<and> length (buffer ex_state_v2) = BUFSIZE \<and>
   take sizeof_MAGIC_WORD (store (buffer ex_state_v1) (take BUFSIZE ''hello'')) \<noteq> MAGIC_WORD \<and>
   take sizeof_MAGIC_WORD (store (buffer ex_state_v2) (take BUFSIZE ''hello'')) \<noteq> MAGIC_WORD \<and>
   hs_recv ex_server = Datagram ex_P ''hello'' # [Datagram ex_Q MAGIC_WORD] \<and>
   \<not> setsockopt_ret ex_server < 0 \<and> \<not> bind_ret ex_server < 0 \<and>
   cliserv ex_state_v1 = SERVER \<and> ex_Q \<noteq> ex_P \<and>
   wait_magic_v1 ex_state_v1 [Datagram ex_P ''hello''] =
     ([Sys_recvfrom, Stdout ''Bad magic word from %s:%i\<newline>'', Sys_recvfrom], Wait) \<and>
   (\<exists>s. wait_magic_v1 ex_state_v1 (hs_recv ex_server) =
      ([Sys_recvfrom, Stdout ''Bad magic word from %s:%i\<newline>'', Sys_recvfrom], Next s) \<and>
      client_addr s = ex_Q) \<and>
   (\<exists>ev s. server_v1 ex_server ex_state_v1 = (ev, Next s) \<and> peer_v1 s = ex_Q \<and>
      destinations ev = [ex_Q]) \<and>
   server_v2 ex_server ex_state_v2 =
     ([Sys_setsockopt, Sys_bind \<lparr>sin_addr = INADDR_ANY, sin_port = PORT_v2\<rparr>,
       Sys_recvfrom, Perror ''Bad magic word for peer\<newline>''], Exit 1)"
proof -
  have h: "length (buffer ex_state_v1) = BUFSIZE" "length (buffer ex_state_v2) = BUFSIZE"
    "take sizeof_MAGIC_WORD (store (buffer ex_state_v1) (take BUFSIZE ''hello'')) \<noteq> MAGIC_WORD"
    "take sizeof_MAGIC_WORD (store (buffer ex_state_v2) (take BUFSIZE ''hello'')) \<noteq> MAGIC_WORD"
    "hs_recv ex_server = Datagram ex_P ''hello'' # [Datagram ex_Q MAGIC_WORD]"
    "\<not> setsockopt_ret ex_server < 0" "\<not> bind_ret ex_server < 0"
    by (simp_all add: ex_state_v1_def ex_state_v2_def ex_server_def const_defs store_def)
  have role: "cliserv ex_state_v1 = SERVER" and pq: "ex_Q \<noteq> ex_P"
    by (simp_all add: ex_state_v1_def ex_P_def ex_Q_def)
  have rest: "wait_magic_v1
      (ex_state_v1\<lparr>buffer := store (buffer ex_state_v1) (take BUFSIZE ''hello''),
                    client_addr := ex_P\<rparr>) [Datagram ex_Q MAGIC_WORD] =
      ([Sys_recvfrom],
       Next (ex_state_v1\<lparr>buffer := store (store (buffer ex_state_v1) (take BUFSIZE ''hello''))
                                      (take BUFSIZE MAGIC_WORD),
                           client_addr := ex_Q\<rparr>))"
    by (simp add: ex_state_v1_def const_defs store_def sys_recvfrom_def perror_if_def)
  have p: "port ex_state_v2 = PORT_v2"
    by (simp add: ex_state_v2_def)
  obtain ev s where run: "server_v1 ex_server ex_state_v1 = (ev, Next s)"
    by (simp add: server_v1_def ex_server_def ex_state_v1_def ex_P_def ex_Q_def const_defs
        Let_def store_def sys_recvfrom_def perror_if_def do_debug_def)
  note main = bad_magic_word_at_server [OF h]
  from main role run obtain rs1 b d' rs2 where
    "[Datagram ex_Q MAGIC_WORD] = rs1 @ Datagram b d' # rs2" "peer_v1 s = b"
    "destinations ev = [b]"
    by blast
  then have "peer_v1 s = ex_Q" "destinations ev = [ex_Q]"
    by (auto simp: append_eq_Cons_conv Cons_eq_append_conv)
  with run have srv: "\<exists>ev s. server_v1 ex_server ex_state_v1 = (ev, Next s) \<and>
      peer_v1 s = ex_Q \<and> destinations ev = [ex_Q]"
    by blast
  from main h rest p role pq srv show ?thesis
    by simp
qed

text \<open>
  C3 as the claim states it fails for tunneludp_v2.c: the server that receives
  \<open>hello\<close> first ends with \<open>exit(1)\<close>, although the magic word would follow.
\<close>

theorem v2_server_exits_on_bad_magic_word:
  "hs_recv ex_server = [Datagram ex_P ''hello'', Datagram ex_Q MAGIC_WORD] \<and>
   ''hello'' \<noteq> MAGIC_WORD \<and>
   main_v2 ex_server =
     ([Sys_open, Sys_ioctl ''tun0'' 4097,
       Stdout ''Successfully connected to interface %s\<newline>'', Sys_socket,
       Sys_setsockopt, Sys_bind \<lparr>sin_addr = 0, sin_port = 5588\<rparr>, Sys_recvfrom,
       Perror ''Bad magic word for peer\<newline>''],
      Exit 1)"
  by (simp add: v2_defs ex_server_def const_defs Let_def store_def sys_recvfrom_def
      perror_if_def)

text \<open>
  C4, where the code departs from it. The client calls
  \<open>strncmp(MAGIC_WORD, buffer, sizeof(MAGIC_WORD) != 0)\<close>: the third argument is 1,
  and only the first byte of the reply is compared. The reply \<open>Wrong\<close> is not the
  magic word; both clients take it, report nothing and relay the next frame to its
  sender. And in tunneludp_v1.c a reply that differs in its first byte, \<open>hello\<close>, is
  reported and the client goes on into the relay loop all the same.
\<close>

theorem client_compares_one_byte:
  "hs_recv ex_client = [Datagram ex_P ''Wrong''] \<and> ''Wrong'' \<noteq> MAGIC_WORD \<and>
   (\<exists>s. snd (main_v2 ex_client) = Next s \<and> remote_addr s = ex_P) \<and>
   Perror ''Bad magic word for peer\<newline>'' \<notin> set (fst (main_v2 ex_client)) \<and>
   destinations (fst (main_v2 ex_client)) = [ex_P, ex_P] \<and>
   (\<exists>s. snd (main_v1 ex_client) = Next s \<and> peer_v1 s = ex_P) \<and>
   Perror ''Bad magic word for peer\<newline>'' \<notin> set (fst (main_v1 ex_client)) \<and>
   destinations (fst (main_v1 ex_client)) = [ex_P\<lparr>sin_port := PORT_v1\<rparr>, ex_P] \<and>
   (\<exists>s. snd (main_v1 (ex_client\<lparr>hs_recv := [Datagram ex_P ''hello'']\<rparr>)) = Next s \<and>
      peer_v1 s = ex_P) \<and>
   Perror ''Bad magic word for peer\<newline>''
     \<in> set (fst (main_v1 (ex_client\<lparr>hs_recv := [Datagram ex_P ''hello'']\<rparr>))) \<and>
   snd (main_v2 (ex_client\<lparr>hs_recv := [Datagram ex_P ''hello'']\<rparr>)) = Exit 1"
  by (simp add: v1_defs v2_defs relay_defs ex_client_def ex_P_def ex_turn_tap_def const_defs
      Let_def store_def peer_v1_def)

text \<open>
  C5, where the code departs from it. The client of tunneludp_v1.c reports a failed
  \<open>bind\<close> and goes on: it sends the magic word from the unbound socket, takes the
  reply and relays. The server of tunneludp_v1.c and both roles of tunneludp_v2.c end
  with \<open>exit(1)\<close> right after the report.
\<close>

theorem v1_client_goes_on_unbound:
  "bind_ret ex_client_unbound < 0 \<and>
   take 6 (fst (main_v1 ex_client_unbound)) =
     [Sys_open, Sys_ioctl ''tun0'' 4097, Sys_socket,
      Sys_bind \<lparr>sin_addr = 0, sin_port = 55566\<rparr>, Perror ''bind'',
      Sys_sendto \<lparr>sin_addr = 0x0A000005, sin_port = 55566\<rparr> MAGIC_WORD] \<and>
   (\<exists>s. snd (main_v1 ex_client_unbound) = Next s) \<and>
   sends (fst (main_v1 ex_client_unbound)) = 2 \<and>
   main_v2 ex_client_unbound =
     ([Sys_open, Sys_ioctl ''tun0'' 4097,
       Stdout ''Successfully connected to interface %s\<newline>'', Sys_socket,
       Sys_bind \<lparr>sin_addr = 0, sin_port = 5588\<rparr>, Perror ''bind''],
      Exit 1) \<and>
   main_v1 (ex_server\<lparr>bind_ret := - 1\<rparr>) =
     ([Sys_open, Sys_ioctl ''tun0'' 4097, Sys_socket, Sys_setsockopt,
       Sys_bind \<lparr>sin_addr = 0, sin_port = 55566\<rparr>, Perror ''bind()''],
      Exit 1) \<and>
   main_v2 (ex_server\<lparr>bind_ret := - 1\<rparr>) =
     ([Sys_open, Sys_ioctl ''tun0'' 4097,
       Stdout ''Successfully connected to interface %s\<newline>'', Sys_socket, Sys_setsockopt,
       Sys_bind \<lparr>sin_addr = 0, sin_port = 5588\<rparr>, Perror ''bind''],
      Exit 1)"
  by (simp add: v1_defs v2_defs relay_defs ex_client_unbound_def ex_client_def ex_server_def
      ex_P_def ex_turn_tap_def const_defs Let_def store_def)

section \<open>The option \<open>-p\<close> of tunneludp_v1.c\<close>

lemma getopt_loop_v1_without_p:
  "getopt_loop_v1 s (filter (\<lambda>opt. fst opt \<noteq> CHR ''p'') opts) = getopt_loop_v1 s opts"
  by (induction s opts rule: getopt_loop_v1.induct) simp_all

lemma main_v1_getopt_results:
  "main_v1 (e\<lparr>getopt_results := opts\<rparr>) =
     seq (getopt_loop_v1 (init_v1 e) opts)
       (\<lambda>s. seq (check_args_v1 e s)
          (\<lambda>s. seq (open_tun_v1 e s)
             (\<lambda>s. seq (open_socket e s)
                (\<lambda>s. seq (if cliserv s = CLIENT then client_v1 e s else server_v1 e s)
                   (\<lambda>s. relay_loop_v1 s (relay_script e))))))"
proof -
  have "init_v1 (e\<lparr>getopt_results := opts\<rparr>) = init_v1 e"
    by (simp add: init_v1_def)
  moreover have "check_args_v1 (e\<lparr>getopt_results := opts\<rparr>) = check_args_v1 e"
    by (rule ext) (simp add: check_args_v1_def)
  moreover have "open_tun_v1 (e\<lparr>getopt_results := opts\<rparr>) = open_tun_v1 e"
    by (rule ext) (simp add: open_tun_v1_def tun_alloc_def)
  moreover have "open_socket (e\<lparr>getopt_results := opts\<rparr>) = (open_socket e :: state_v1 \<Rightarrow> _)"
    by (rule ext) (simp add: open_socket_def)
  moreover have "client_v1 (e\<lparr>getopt_results := opts\<rparr>) = client_v1 e"
    by (rule ext) (simp add: client_v1_def inet_aton_into_def Let_def)
  moreover have "server_v1 (e\<lparr>getopt_results := opts\<rparr>) = server_v1 e"
    by (rule ext) (simp add: server_v1_def Let_def)
  ultimately show ?thesis
    by (simp add: main_v1_def cong: if_cong)
qed

lemma bindings_seq:
  "bindings (fst (seq p f)) =
     bindings (fst p) @ (case snd p of Next a \<Rightarrow> bindings (fst (f a)) | _ \<Rightarrow> [])"
  by (cases p; cases "snd p") simp_all

lemma list_all_bindings_seq:
  "list_all P (bindings (fst p)) \<Longrightarrow> (\<And>a. list_all P (bindings (fst (f a)))) \<Longrightarrow>
   list_all P (bindings (fst (seq p f)))"
  by (simp add: bindings_seq split: result.splits)

lemma bindings_usage_v1 [simp]:
  "bindings (fst usage_v1) = []" "bindings (fst (my_err_usage_v1 m)) = []"
  by (simp_all add: usage_v1_def my_err_usage_v1_def)

lemma bindings_getopt_loop_v1 [simp]: "bindings (fst (getopt_loop_v1 s opts)) = []"
  by (induction s opts rule: getopt_loop_v1.induct) simp_all

lemma bindings_check_args_v1 [simp]: "bindings (fst (check_args_v1 e s)) = []"
  by (simp add: check_args_v1_def)

lemma bindings_open_tun_v1 [simp]: "bindings (fst (open_tun_v1 e s)) = []"
  by (simp add: open_tun_v1_def tun_alloc_def do_debug_def)

lemma bindings_open_socket [simp]: "bindings (fst (open_socket e s)) = []"
  by (simp add: open_socket_def)

lemma bindings_wait_magic_v1 [simp]: "bindings (fst (wait_magic_v1 s rs)) = []"
  by (induction rs arbitrary: s) (simp_all add: split_beta split: option.splits)

lemma bindings_relay_turn_v1 [simp]: "bindings (fst (relay_turn_v1 s t)) = []"
  by (simp add: relay_turn_v1_def tap2net_v1_def net2tap_v1_def split_beta)

lemma bindings_relay_loop_v1 [simp]: "bindings (fst (relay_loop_v1 s ts)) = []"
  by (induction ts arbitrary: s) (simp_all add: bindings_seq split: result.splits)

lemma bindings_client_v1:
  "bindings (fst (client_v1 e s)) = [\<lparr>sin_addr = INADDR_ANY, sin_port = PORT_v1\<rparr>]"
  by (simp add: client_v1_def Let_def split_beta do_debug_def
      split: list.splits option.splits)

lemma destinations_client_v1:
  "destinations (fst (client_v1 e s)) =
     [inet_aton_into e (server_ip s) ((server_addr s)\<lparr>sin_port := PORT_v1\<rparr>)]"
  by (simp add: client_v1_def Let_def split_beta do_debug_def
      split: list.splits option.splits)

lemma sin_port_inet_aton_into [simp]: "sin_port (inet_aton_into e ip a) = sin_port a"
  by (simp add: inet_aton_into_def split: option.splits)

lemma bindings_server_v1:
  "bindings (fst (server_v1 e s)) =
     (if setsockopt_ret e < 0 then [] else [\<lparr>sin_addr = INADDR_ANY, sin_port = PORT_v1\<rparr>])"
  by (simp add: server_v1_def Let_def bindings_seq do_debug_def split: result.splits)

text \<open>\<open>main\<close> is the setup, then the client or the server, then the relay loop.\<close>

lemma seq_assoc: "seq (seq p f) g = seq p (\<lambda>a. seq (f a) g)"
  by (auto simp: seq_def split: prod.splits result.splits)

lemma main_v1_setup:
  "main_v1 e =
     seq (setup_v1 e)
       (\<lambda>s. seq (if cliserv s = CLIENT then client_v1 e s else server_v1 e s)
          (\<lambda>s. relay_loop_v1 s (relay_script e)))"
  by (simp add: main_v1_def setup_v1_def seq_assoc)

lemma bindings_setup_v1 [simp]: "bindings (fst (setup_v1 e)) = []"
  by (simp add: setup_v1_def bindings_seq split: result.splits)

lemma bindings_main_v1:
  "bindings (fst (main_v1 e)) =
     (case snd (setup_v1 e) of
        Next s \<Rightarrow>
          if cliserv s = CLIENT \<or> \<not> setsockopt_ret e < 0
          then [\<lparr>sin_addr = INADDR_ANY, sin_port = PORT_v1\<rparr>] else []
      | _ \<Rightarrow> [])"
  by (simp add: main_v1_setup bindings_seq bindings_client_v1 bindings_server_v1
      split: result.splits)

text \<open>The datagrams of a run: none before the handshake.\<close>

lemma destinations_seq:
  "destinations (fst (seq p f)) =
     destinations (fst p) @ (case snd p of Next a \<Rightarrow> destinations (fst (f a)) | _ \<Rightarrow> [])"
  by (cases p; cases "snd p") simp_all

lemma destinations_getopt_loop_v1 [simp]: "destinations (fst (getopt_loop_v1 s opts)) = []"
  by (induction s opts rule: getopt_loop_v1.induct)
    (simp_all add: usage_v1_def my_err_usage_v1_def)

lemma destinations_setup_v1 [simp]: "destinations (fst (setup_v1 e)) = []"
  by (simp add: setup_v1_def destinations_seq check_args_v1_def open_tun_v1_def tun_alloc_def
      open_socket_def do_debug_def usage_v1_def my_err_usage_v1_def split: result.splits)

text \<open>
  The relay loop of tunneludp_v1.c sends to the peer of the state, and the peer after
  a turn is the source of the datagram that the turn received, if it received one.
\<close>

lemma relay_turn_v1_destinations:
  "destinations (fst (relay_turn_v1 s t)) =
     (if \<not> select_ret t < 0 \<and> tap_isset t then [peer_v1 s] else [])"
  by (simp add: relay_turn_v1_def split_beta tap2net_v1_facts net2tap_v1_facts)

lemma relay_turn_v1_peer:
  "snd (relay_turn_v1 s t) = Next s' \<Longrightarrow>
   peer_v1 s' =
     (if \<not> select_ret t < 0 \<and> sock_isset t
      then (case recv_result t of Datagram a d \<Rightarrow> a | Recv_failed \<Rightarrow> peer_v1 s)
      else peer_v1 s)"
  by (auto simp: relay_turn_v1_def split_beta tap2net_v1_facts net2tap_v1_facts
      split: if_splits recv_res.splits)

lemma relay_loop_v1_destinations:
  assumes "G (peer_v1 s)"
    and "\<And>t a d. t \<in> set ts \<Longrightarrow> \<not> select_ret t < 0 \<Longrightarrow> sock_isset t \<Longrightarrow>
           recv_result t = Datagram a d \<Longrightarrow> G a"
  shows "list_all G (destinations (fst (relay_loop_v1 s ts)))"
  using assms
proof (induction ts arbitrary: s)
  case Nil
  show ?case by simp
next
  case (Cons t ts)
  have here: "list_all G (destinations (fst (relay_turn_v1 s t)))"
    using Cons.prems(1) by (simp add: relay_turn_v1_destinations)
  show ?case
  proof (cases "snd (relay_turn_v1 s t)")
    case (Next s')
    from relay_turn_v1_peer [OF Next] Cons.prems have "G (peer_v1 s')"
      by (auto split: if_splits recv_res.splits)
    then have "list_all G (destinations (fst (relay_loop_v1 s' ts)))"
    proof (rule Cons.IH)
      fix u a d
      assume "u \<in> set ts" "\<not> select_ret u < 0" "sock_isset u" "recv_result u = Datagram a d"
      with Cons.prems(2) [of u a d] show "G a"
        by simp
    qed
    with here Next show ?thesis
      by (simp add: destinations_seq)
  qed (use here in \<open>simp_all add: destinations_seq\<close>)
qed

lemma client_v1_peer:
  "snd (client_v1 e s) = Next s' \<Longrightarrow> cliserv s = CLIENT \<Longrightarrow>
   sin_port (peer_v1 s') = PORT_v1 \<or> peer_v1 s' \<in> set (received_from e)"
  by (cases "hs_recv e"; cases "hd (hs_recv e)")
    (auto simp: client_v1_def Let_def peer_v1_def received_from_def split_beta
      split: option.splits)

lemma main_v1_client_destinations:
  assumes "snd (setup_v1 e) = Next s0" and "cliserv s0 = CLIENT"
  shows "\<exists>w rest. destinations (fst (main_v1 e)) = \<lparr>sin_addr = w, sin_port = PORT_v1\<rparr> # rest \<and>
           list_all (\<lambda>a. sin_port a = PORT_v1 \<or> a \<in> set (received_from e)) rest"
proof -
  define target where
    "target = inet_aton_into e (server_ip s0) ((server_addr s0)\<lparr>sin_port := PORT_v1\<rparr>)"
  define rest where
    "rest = (case snd (client_v1 e s0) of
               Next s' \<Rightarrow> destinations (fst (relay_loop_v1 s' (relay_script e))) | _ \<Rightarrow> [])"
  from assms have d: "destinations (fst (main_v1 e)) = target # rest"
    by (simp add: main_v1_setup destinations_seq destinations_client_v1 target_def rest_def)
  have t: "target = \<lparr>sin_addr = sin_addr target, sin_port = PORT_v1\<rparr>"
    by (simp add: target_def)
  have "list_all (\<lambda>a. sin_port a = PORT_v1 \<or> a \<in> set (received_from e)) rest"
  proof (cases "snd (client_v1 e s0)")
    case (Next s')
    have "list_all (\<lambda>a. sin_port a = PORT_v1 \<or> a \<in> set (received_from e))
        (destinations (fst (relay_loop_v1 s' (relay_script e))))"
    proof (rule relay_loop_v1_destinations)
      show "sin_port (peer_v1 s') = PORT_v1 \<or> peer_v1 s' \<in> set (received_from e)"
        using client_v1_peer [OF Next assms(2)] .
    next
      fix t a d
      assume "t \<in> set (relay_script e)" "\<not> select_ret t < 0" "sock_isset t"
        "recv_result t = Datagram a d"
      then have "a \<in> set (received_from e)"
        by (auto simp: received_from_def intro!: bexI [of _ t])
      then show "sin_port a = PORT_v1 \<or> a \<in> set (received_from e)" ..
    qed
    with Next show ?thesis
      by (simp add: rest_def)
  qed (simp_all add: rest_def)
  with d t show ?thesis
    by metis
qed

text \<open>
  C10. In tunneludp_v1.c the case \<open>'p'\<close> of the option loop is empty. A run is the
  same run when every \<open>-p\<close> option is taken off the command line, whatever its
  argument. The local port: a run binds the socket once, to port 55566, in both roles
  (never, when the run ends before the handshake, or the server's \<open>setsockopt\<close>
  fails). The target port of the client: the first datagram of a run as client is the
  magic word to port 55566; every later datagram goes to port 55566 or to the source of
  a datagram that the run received, since \<open>recvfrom\<close> stores that source where
  \<open>sendto\<close> reads its destination.
\<close>

theorem v1_port_option_ignored:
  "main_v1 (e\<lparr>getopt_results := filter (\<lambda>opt. fst opt \<noteq> CHR ''p'') (getopt_results e)\<rparr>)
     = main_v1 e \<and>
   bindings (fst (main_v1 e)) =
     (case snd (setup_v1 e) of
        Next s0 \<Rightarrow>
          if cliserv s0 = CLIENT \<or> \<not> setsockopt_ret e < 0
          then [\<lparr>sin_addr = INADDR_ANY, sin_port = 55566\<rparr>] else []
      | _ \<Rightarrow> []) \<and>
   bindings (fst (client_v1 e s)) = [\<lparr>sin_addr = INADDR_ANY, sin_port = 55566\<rparr>] \<and>
   bindings (fst (server_v1 e s)) =
     (if setsockopt_ret e < 0 then [] else [\<lparr>sin_addr = INADDR_ANY, sin_port = 55566\<rparr>]) \<and>
   map sin_port (destinations (fst (client_v1 e s))) = [55566] \<and>
   (\<forall>s0. snd (setup_v1 e) = Next s0 \<and> cliserv s0 = CLIENT \<longrightarrow>
      (\<exists>w rest. destinations (fst (main_v1 e)) = \<lparr>sin_addr = w, sin_port = 55566\<rparr> # rest \<and>
         list_all (\<lambda>a. sin_port a = 55566 \<or> a \<in> set (received_from e)) rest))"
proof -
  have "main_v1 (e\<lparr>getopt_results := filter (\<lambda>opt. fst opt \<noteq> CHR ''p'') (getopt_results e)\<rparr>)
      = main_v1 (e\<lparr>getopt_results := getopt_results e\<rparr>)"
    unfolding main_v1_getopt_results getopt_loop_v1_without_p ..
  then have a: "main_v1 (e\<lparr>getopt_results := filter (\<lambda>opt. fst opt \<noteq> CHR ''p'') (getopt_results e)\<rparr>)
      = main_v1 e"
    by simp
  have b: "bindings (fst (main_v1 e)) =
     (case snd (setup_v1 e) of
        Next s0 \<Rightarrow>
          if cliserv s0 = CLIENT \<or> \<not> setsockopt_ret e < 0
          then [\<lparr>sin_addr = INADDR_ANY, sin_port = 55566\<rparr>] else []
      | _ \<Rightarrow> [])"
    using bindings_main_v1 [of e, unfolded PORT_v1_def] .
  have c: "\<forall>s0. snd (setup_v1 e) = Next s0 \<and> cliserv s0 = CLIENT \<longrightarrow>
      (\<exists>w rest. destinations (fst (main_v1 e)) = \<lparr>sin_addr = w, sin_port = 55566\<rparr> # rest \<and>
         list_all (\<lambda>a. sin_port a = 55566 \<or> a \<in> set (received_from e)) rest)"
    using main_v1_client_destinations [of e, unfolded PORT_v1_def] by blast
  from a b c show ?thesis
    using bindings_client_v1 [of e s] destinations_client_v1 [of e s] bindings_server_v1 [of e s]
    by (simp add: PORT_v1_def)
qed

theorem v1_port_option_ignored_witness:
  "main_v1 ex_client_p = main_v1 ex_client \<and>
   (\<exists>s0. snd (setup_v1 ex_client_p) = Next s0 \<and> cliserv s0 = CLIENT) \<and>
   bindings (fst (main_v1 ex_client_p)) = [\<lparr>sin_addr = 0, sin_port = 55566\<rparr>] \<and>
   destinations (fst (main_v1 ex_client_p)) =
     [\<lparr>sin_addr = 0x0A000005, sin_port = 55566\<rparr>, ex_P] \<and>
   ex_P \<in> set (received_from ex_client_p) \<and>
   (\<exists>s0. snd (setup_v1 ex_server_p) = Next s0 \<and> cliserv s0 = SERVER) \<and>
   bindings (fst (main_v1 ex_server_p)) = [\<lparr>sin_addr = 0, sin_port = 55566\<rparr>] \<and>
   bindings (fst (main_v2 ex_client_p)) = [\<lparr>sin_addr = 0, sin_port = 1234\<rparr>]"
proof -
  have f: "ex_client_p\<lparr>getopt_results :=
      filter (\<lambda>opt. fst opt \<noteq> CHR ''p'') (getopt_results ex_client_p)\<rparr> = ex_client"
    by (simp add: ex_client_p_def ex_client_def)
  have sc: "\<exists>s0. snd (setup_v1 ex_client_p) = Next s0 \<and> cliserv s0 = CLIENT"
    by (simp add: setup_v1_def v1_defs ex_client_p_def ex_client_def const_defs)
  have ss: "\<exists>s0. snd (setup_v1 ex_server_p) = Next s0 \<and> cliserv s0 = SERVER"
    by (simp add: setup_v1_def v1_defs ex_server_p_def ex_server_def const_defs)
  have d: "destinations (fst (main_v1 ex_client_p)) =
      [\<lparr>sin_addr = 0x0A000005, sin_port = 55566\<rparr>, ex_P]"
    by (simp add: v1_defs relay_defs ex_client_p_def ex_client_def ex_P_def ex_turn_tap_def
        const_defs Let_def store_def)
  have r: "ex_P \<in> set (received_from ex_client_p)"
    by (simp add: received_from_def ex_client_p_def ex_client_def ex_turn_tap_def)
  have c: "bindings (fst (main_v2 ex_client_p)) = [\<lparr>sin_addr = 0, sin_port = 1234\<rparr>]"
    by (simp add: v2_defs relay_defs ex_client_p_def ex_client_def ex_P_def ex_turn_tap_def
        const_defs Let_def store_def atoi_def strtol_def LONG_MAX_def isspace_def isdigit_def)
  note main = v1_port_option_ignored
  from main [of ex_client_p] sc
  have bc: "bindings (fst (main_v1 ex_client_p)) = [\<lparr>sin_addr = 0, sin_port = 55566\<rparr>]"
    by (auto simp: INADDR_ANY_def)
  from main [of ex_server_p] ss
  have bs: "bindings (fst (main_v1 ex_server_p)) = [\<lparr>sin_addr = 0, sin_port = 55566\<rparr>]"
    by (auto simp: INADDR_ANY_def ex_server_p_def ex_server_def)
  from main [of ex_client_p] f sc ss d r c bc bs show ?thesis
    by simp
qed

text \<open>
  \<open>atoi\<close> on the argument of \<open>-p\<close> in tunneludp_v2.c: a port in range, and a number
  that does not fit a \<open>long\<close>.
\<close>

lemma atoi_examples:
  "(word_of_int (atoi ''1234'') :: 16 word) = 1234"
  "atoi '' -42x'' = - 42"
  "(word_of_int (atoi ''20000000000000000000'') :: 16 word) = 65535"
  "(word_of_int (atoi ''-20000000000000000000'') :: 16 word) = 0"
  by (simp_all add: atoi_def strtol_def LONG_MAX_def LONG_MIN_def isspace_def isdigit_def)

end
